theory Spec2Isabelle
  imports Main "HOL-Library.Word" "HOL-Library.Signed_Division"
begin

section \<open>NetworkDB gossip delegate: data model\<close>

text \<open>
  The development embeds \<^verbatim>\<open>daemon/libnetwork/networkdb/delegate.go\<close>. The store
  \<^verbatim>\<open>NetworkDB\<close> is a record that every handler takes and returns; a handler that
  returns \<^verbatim>\<open>bool\<close> in Go returns a pair of the flag and the new store. The store
  lock is held for the whole of each handler, so a handler is one atomic step.

  Lamport times are unsigned 64-bit words (their order is the unsigned one). A
  \<^verbatim>\<open>time.Duration\<close> is an \<open>int\<close> of nanoseconds: the only arithmetic on durations
  here multiplies a 32-bit field by \<open>10^9\<close> and divides by six, which stays inside
  64 bits. Go's integer division truncates towards zero, which is \<open>sdiv\<close>. A byte
  slice is a list of bytes, the nil slice being the empty list; no code modelled
  here tells the two apart.
\<close>

type_synonym bytes = "8 word list"
type_synonym LamportTime = "64 word"
type_synonym Duration = int

definition Second :: Duration where
  "Second = 1000000000"

datatype TableEventType =
  TableEventTypeInvalid | TableEventTypeCreate | TableEventTypeUpdate | TableEventTypeDelete

datatype NodeEventType = NodeEventTypeInvalid | NodeEventTypeJoin | NodeEventTypeLeave

datatype NetworkEventType = NetworkEventTypeInvalid | NetworkEventTypeJoin | NetworkEventTypeLeave

datatype nodeState = nodeNotFound | nodeActiveState | nodeLeftState | nodeFailedState

text \<open>
  The event types are integers on the wire; the \<open>Invalid\<close> constructor of each type
  stands for every value that the handlers do not name; the handlers treat all
  of them alike (the \<^verbatim>\<open>default\<close> branch of a switch, the else of a comparison).

  The messages. \<open>te_ResidualReapTime\<close> is the numeric value of the 32-bit field of the
  wire message, in seconds.
\<close>

record TableEvent =
  te_Type :: TableEventType
  te_LTime :: LamportTime
  te_NodeName :: string
  te_NetworkID :: string
  te_TableName :: string
  te_Key :: string
  te_Value :: bytes
  te_ResidualReapTime :: int

record NodeEvent =
  nde_Type :: NodeEventType
  nde_LTime :: LamportTime
  nde_NodeName :: string

record NetworkEvent =
  nwe_Type :: NetworkEventType
  nwe_LTime :: LamportTime
  nwe_NodeName :: string
  nwe_NetworkID :: string

record NetworkEntry =
  npe_LTime :: LamportTime
  npe_NetworkID :: string
  npe_NodeName :: string
  npe_Leaving :: bool

record NetworkPushPull =
  pp_LTime :: LamportTime
  pp_NodeName :: string
  pp_Networks :: "NetworkEntry list"

text \<open>The stored state.\<close>

record entry =
  entry_ltime :: LamportTime
  entry_node :: string
  entry_value :: bytes
  entry_deleting :: bool
  entry_reapTime :: Duration

record node =
  node_Name :: string
  node_ltime :: LamportTime
  node_reapTime :: Duration

record network =
  net_ltime :: LamportTime
  net_leaving :: bool
  net_reapTime :: Duration

record WatchEvent =
  we_Table :: string
  we_NetworkID :: string
  we_Key :: string
  we_Value :: bytes
  we_Prev :: bytes

record tableEventMessage =
  tem_msg :: bytes
  tem_id :: string
  tem_tname :: string
  tem_key :: string

text \<open>
  \<^verbatim>\<open>thisNodeNetwork\<close> embeds \<^verbatim>\<open>network\<close> and adds the synchronisation flag and the
  queue of table events to gossip again, oldest first.
\<close>

record thisNodeNetwork = network +
  inSync :: bool
  tableRebroadcasts :: "tableEventMessage list"

record Config =
  cfg_NodeID :: string
  cfg_reapEntryInterval :: Duration
  cfg_reapNetworkInterval :: Duration

text \<open>
  \<open>nodes\<close> holds the nodes the membership layer reports alive, \<open>leftNodes\<close> and
  \<open>failedNodes\<close> the nodes in the two other states. \<open>entries\<close> is keyed by network
  id, table name and key. \<open>broadcaster\<close> is the sequence of watch events written so
  far, oldest first.
\<close>

record NetworkDB =
  config :: Config
  networkClock :: LamportTime
  tableClock :: LamportTime
  nodes :: "string \<rightharpoonup> node"
  leftNodes :: "string \<rightharpoonup> node"
  failedNodes :: "string \<rightharpoonup> node"
  networks :: "string \<rightharpoonup> (string \<rightharpoonup> network)"
  thisNodeNetworks :: "string \<rightharpoonup> thisNodeNetwork"
  networkNodes :: "string \<rightharpoonup> string list"
  entries :: "(string \<times> string \<times> string) \<rightharpoonup> entry"
  broadcaster :: "WatchEvent list"

section \<open>Helpers that delegate.go calls\<close>

text \<open>
  Modelled from the spec: the Lamport clock's \<^verbatim>\<open>Witness\<close>, which is not part of
  delegate.go. The spec's glossary: raising a clock to the max of its current value
  and an observed value.
\<close>

definition Witness :: "LamportTime \<Rightarrow> LamportTime \<Rightarrow> LamportTime" where
  "Witness clock v = max clock v"

text \<open>
  Modelled from the spec: \<^verbatim>\<open>getEntry\<close> and \<^verbatim>\<open>createOrUpdateEntry\<close>, which are not part
  of delegate.go. An entry is keyed by (network id, table name, key); a lookup of an
  unknown key gives the not-found outcome (\<open>None\<close>); applying a record inserts or
  overwrites it.
\<close>

definition getEntry :: "string \<Rightarrow> string \<Rightarrow> string \<Rightarrow> NetworkDB \<Rightarrow> entry option" where
  "getEntry tname nid key nDB = entries nDB (nid, tname, key)"

definition createOrUpdateEntry ::
  "string \<Rightarrow> string \<Rightarrow> string \<Rightarrow> entry \<Rightarrow> NetworkDB \<Rightarrow> NetworkDB" where
  "createOrUpdateEntry nid tname key e nDB =
     nDB\<lparr>entries := (entries nDB)((nid, tname, key) \<mapsto> e)\<rparr>"

text \<open>
  Modelled from the spec: the broadcast queue's \<^verbatim>\<open>NumQueued\<close> and \<^verbatim>\<open>QueueBroadcast\<close>,
  which are not part of delegate.go. The queue holds at most one pending item per
  (network, table, key); enqueuing an item for a key that is already queued
  supersedes the old item; the queued count is the number of pending items.
\<close>

definition NumQueued :: "tableEventMessage list \<Rightarrow> nat" where
  "NumQueued q = length q"

definition sameKey :: "tableEventMessage \<Rightarrow> tableEventMessage \<Rightarrow> bool" where
  "sameKey a b \<longleftrightarrow> tem_id a = tem_id b \<and> tem_tname a = tem_tname b \<and> tem_key a = tem_key b"

definition QueueBroadcast :: "tableEventMessage \<Rightarrow> tableEventMessage list \<Rightarrow> tableEventMessage list" where
  "QueueBroadcast m q = filter (\<lambda>x. \<not> sameKey x m) q @ [m]"

section \<open>Table events\<close>

text \<open>The loop of lines 157 to 162: is the event's owner in the network's member list.\<close>

fun nodePresentIn :: "string \<Rightarrow> string list \<Rightarrow> bool" where
  "nodePresentIn name [] = False"
| "nodePresentIn name (n # ns) = (if n = name then True else nodePresentIn name ns)"

text \<open>Lines 180 to 195: the record built from the event, with the default reap time.\<close>

definition mkEntry :: "TableEvent \<Rightarrow> NetworkDB \<Rightarrow> entry" where
  "mkEntry tEvent nDB =
     (let e = \<lparr>entry_ltime = te_LTime tEvent,
                entry_node = te_NodeName tEvent,
                entry_value = te_Value tEvent,
                entry_deleting = (te_Type tEvent = TableEventTypeDelete),
                entry_reapTime = te_ResidualReapTime tEvent * Second\<rparr>
      in if entry_deleting e \<and> entry_reapTime e = 0
         then e\<lparr>entry_reapTime := cfg_reapEntryInterval (config nDB)\<rparr>
         else e)"

text \<open>
  Lines 218 to 246: the watch events written for an applied event. \<open>prev\<close> is the
  result of the lookup, \<open>None\<close> when the entry was not present. The \<^verbatim>\<open>goto\<close> of
  the delete case is the empty list.
\<close>

definition watchEvents :: "TableEvent \<Rightarrow> entry option \<Rightarrow> WatchEvent list" where
  "watchEvents tEvent prev =
     (let event = \<lparr>we_Table = te_TableName tEvent,
                    we_NetworkID = te_NetworkID tEvent,
                    we_Key = te_Key tEvent,
                    we_Value = [],
                    we_Prev = []\<rparr>
      in case te_Type tEvent of
           TableEventTypeCreate \<Rightarrow>
             [(case prev of
                 Some p \<Rightarrow> if \<not> entry_deleting p
                           then event\<lparr>we_Value := te_Value tEvent, we_Prev := entry_value p\<rparr>
                           else event\<lparr>we_Value := te_Value tEvent\<rparr>
               | None \<Rightarrow> event\<lparr>we_Value := te_Value tEvent\<rparr>)]
         | TableEventTypeUpdate \<Rightarrow>
             [(case prev of
                 Some p \<Rightarrow> if \<not> entry_deleting p
                           then event\<lparr>we_Value := te_Value tEvent, we_Prev := entry_value p\<rparr>
                           else event\<lparr>we_Value := te_Value tEvent\<rparr>
               | None \<Rightarrow> event\<lparr>we_Value := te_Value tEvent\<rparr>)]
         | TableEventTypeDelete \<Rightarrow>
             (case prev of
                None \<Rightarrow> []
              | Some p \<Rightarrow> if entry_deleting p then [] else [event\<lparr>we_Prev := entry_value p\<rparr>])
         | TableEventTypeInvalid \<Rightarrow> [event])"

definition handleTableEvent :: "TableEvent \<Rightarrow> bool \<Rightarrow> NetworkDB \<Rightarrow> bool \<times> NetworkDB" where
  "handleTableEvent tEvent isBulkSync nDB0 =
     (let nDB = nDB0\<lparr>tableClock := Witness (tableClock nDB0) (te_LTime tEvent)\<rparr>;
          nodes = (case networkNodes nDB (te_NetworkID tEvent) of None \<Rightarrow> [] | Some ns \<Rightarrow> ns);
          nodePresent = nodePresentIn (te_NodeName tEvent) nodes
      in case thisNodeNetworks nDB (te_NetworkID tEvent) of
           None \<Rightarrow> (False, nDB)
         | Some network \<Rightarrow>
             if net_leaving network \<or> \<not> nodePresent then (False, nDB)
             else
               let prev = getEntry (te_TableName tEvent) (te_NetworkID tEvent) (te_Key tEvent) nDB;
                   entryPresent = (prev \<noteq> None)
               in if (case prev of None \<Rightarrow> False | Some p \<Rightarrow> entry_ltime p \<ge> te_LTime tEvent)
                  then (False, nDB)
                  else
                    let e = mkEntry tEvent nDB;
                        nDB1 = createOrUpdateEntry (te_NetworkID tEvent) (te_TableName tEvent)
                                 (te_Key tEvent) e nDB
                    in if \<not> entryPresent \<and> te_Type tEvent = TableEventTypeDelete
                       then (isBulkSync \<and> inSync network
                               \<and> entry_reapTime e > cfg_reapEntryInterval (config nDB1) sdiv 6,
                             nDB1)
                       else (inSync network,
                             nDB1\<lparr>broadcaster := broadcaster nDB1 @ watchEvents tEvent prev\<rparr>))"

text \<open>
  \<^verbatim>\<open>handleTableMessage\<close>. The decoder and the encoder of the wire format are parameters
  (\<open>None\<close> is their error), and so is the constant \<^verbatim>\<open>maxQueueLenBroadcastOnSync\<close>,
  none of which delegate.go defines. \<^verbatim>\<open>handleTableEvent\<close> releases the store lock
  when it returns and line 285 takes it again, so other handlers may run in between:
  \<open>others\<close> is what they do to the store, the identity when nothing runs.
\<close>

definition handleTableMessage ::
  "(NetworkDB \<Rightarrow> NetworkDB) \<Rightarrow> (bytes \<Rightarrow> TableEvent option) \<Rightarrow> (bytes \<Rightarrow> bytes option) \<Rightarrow> nat
     \<Rightarrow> bytes \<Rightarrow> bool \<Rightarrow> NetworkDB \<Rightarrow> NetworkDB" where
  "handleTableMessage others unmarshal encodeRawMessage maxQueueLenBroadcastOnSync buf isBulkSync nDB =
     (case unmarshal buf of
        None \<Rightarrow> nDB
      | Some tEvent \<Rightarrow>
          (if te_NodeName tEvent = cfg_NodeID (config nDB) then nDB
           else
             (let r = handleTableEvent tEvent isBulkSync nDB;
                  rebroadcast = fst r;
                  nDB1 = snd r
              in if rebroadcast then
                   (case encodeRawMessage buf of
                      None \<Rightarrow> nDB1
                    | Some buf' \<Rightarrow>
                        (let nDB2 = others nDB1 in
                           (case thisNodeNetworks nDB2 (te_NetworkID tEvent) of
                              None \<Rightarrow> nDB2
                            | Some n \<Rightarrow>
                                (if net_leaving n then nDB2
                                 else if isBulkSync
                                         \<and> NumQueued (tableRebroadcasts n) > maxQueueLenBroadcastOnSync
                                 then nDB2
                                 else nDB2\<lparr>thisNodeNetworks := (thisNodeNetworks nDB2)
                                        (te_NetworkID tEvent \<mapsto>
                                           n\<lparr>tableRebroadcasts :=
                                               QueueBroadcast
                                                 \<lparr>tem_msg = buf', tem_id = te_NetworkID tEvent,
                                                  tem_tname = te_TableName tEvent,
                                                  tem_key = te_Key tEvent\<rparr>
                                                 (tableRebroadcasts n)\<rparr>)\<rparr>))))
                 else nDB1)))"

section \<open>Node events\<close>

text \<open>
  Modelled from the spec: \<^verbatim>\<open>findNode\<close> and \<^verbatim>\<open>changeNodeState\<close>, which are not part of
  delegate.go. A node is located by name and has one membership state: active
  (the nodes of \<^verbatim>\<open>nDB.nodes\<close>, which delegate.go reads as the nodes known to the
  membership layer), left, or a third state for a known node that is neither. A
  state change moves the node to the new state and reports whether a transition
  actually occurred; changing the state of a node that cannot be found is the
  error (\<open>None\<close>). \<open>findNode\<close> gives the node and its state, which also names the map
  that holds it; \<open>putNode\<close> writes to that map.
\<close>

definition findNode :: "string \<Rightarrow> NetworkDB \<Rightarrow> (node \<times> nodeState) option" where
  "findNode nodeName nDB =
     (case nodes nDB nodeName of
        Some n \<Rightarrow> Some (n, nodeActiveState)
      | None \<Rightarrow>
          (case leftNodes nDB nodeName of
             Some n \<Rightarrow> Some (n, nodeLeftState)
           | None \<Rightarrow>
               (case failedNodes nDB nodeName of
                  Some n \<Rightarrow> Some (n, nodeFailedState)
                | None \<Rightarrow> None)))"

definition putNode :: "nodeState \<Rightarrow> string \<Rightarrow> node option \<Rightarrow> NetworkDB \<Rightarrow> NetworkDB" where
  "putNode st nodeName n nDB =
     (case st of
        nodeActiveState \<Rightarrow> nDB\<lparr>nodes := (nodes nDB)(nodeName := n)\<rparr>
      | nodeLeftState \<Rightarrow> nDB\<lparr>leftNodes := (leftNodes nDB)(nodeName := n)\<rparr>
      | nodeFailedState \<Rightarrow> nDB\<lparr>failedNodes := (failedNodes nDB)(nodeName := n)\<rparr>
      | nodeNotFound \<Rightarrow> nDB)"

definition changeNodeState :: "string \<Rightarrow> nodeState \<Rightarrow> NetworkDB \<Rightarrow> (bool \<times> NetworkDB) option" where
  "changeNodeState nodeName newState nDB =
     (case findNode nodeName nDB of
        None \<Rightarrow> None
      | Some (n, currState) \<Rightarrow>
          if currState = newState then Some (False, nDB)
          else Some (True, putNode newState nodeName (Some n) (putNode currState nodeName None nDB)))"

text \<open>
  \<^verbatim>\<open>handleNodeEvent\<close>. \<^verbatim>\<open>n\<close> is a pointer into the map that holds the node, so the
  assignment of line 40 is a write to that map.
\<close>

definition handleNodeEvent :: "NodeEvent \<Rightarrow> NetworkDB \<Rightarrow> bool \<times> NetworkDB" where
  "handleNodeEvent nEvent nDB0 =
     (let nDB = nDB0\<lparr>networkClock := Witness (networkClock nDB0) (nde_LTime nEvent)\<rparr>
      in case findNode (nde_NodeName nEvent) nDB of
           None \<Rightarrow> (False, nDB)
         | Some (n, st) \<Rightarrow>
             if node_ltime n \<ge> nde_LTime nEvent then (False, nDB)
             else
               (let n1 = n\<lparr>node_ltime := nde_LTime nEvent\<rparr>;
                    nDB1 = putNode st (nde_NodeName nEvent) (Some n1) nDB
                in if nodes nDB1 (nde_NodeName nEvent) = None then (False, nDB1)
                   else
                     (case nde_Type nEvent of
                        NodeEventTypeJoin \<Rightarrow>
                          (case changeNodeState (node_Name n1) nodeActiveState nDB1 of
                             None \<Rightarrow> (False, nDB1)
                           | Some (moved, nDB2) \<Rightarrow> (moved, nDB2))
                      | NodeEventTypeLeave \<Rightarrow>
                          (case changeNodeState (node_Name n1) nodeLeftState nDB1 of
                             None \<Rightarrow> (False, nDB1)
                           | Some (moved, nDB2) \<Rightarrow> (moved, nDB2))
                      | NodeEventTypeInvalid \<Rightarrow> (False, nDB1))))"

section \<open>Network events and the merge of a remote snapshot\<close>

text \<open>
  Modelled from the spec: \<^verbatim>\<open>addNetworkNode\<close> and \<^verbatim>\<open>deleteNetworkNode\<close>, which are not
  part of delegate.go: they synchronise the network's remembered member set (add
  or remove the node).
\<close>

definition addNetworkNode :: "string \<Rightarrow> string \<Rightarrow> NetworkDB \<Rightarrow> NetworkDB" where
  "addNetworkNode nid nodeName nDB =
     (let ns = (case networkNodes nDB nid of None \<Rightarrow> [] | Some xs \<Rightarrow> xs)
      in if nodePresentIn nodeName ns then nDB
         else nDB\<lparr>networkNodes := (networkNodes nDB)(nid \<mapsto> ns @ [nodeName])\<rparr>)"

definition deleteNetworkNode :: "string \<Rightarrow> string \<Rightarrow> NetworkDB \<Rightarrow> NetworkDB" where
  "deleteNetworkNode nid nodeName nDB =
     (case networkNodes nDB nid of
        None \<Rightarrow> nDB
      | Some ns \<Rightarrow> nDB\<lparr>networkNodes := (networkNodes nDB)(nid \<mapsto> filter (\<lambda>x. x \<noteq> nodeName) ns)\<rparr>)"

text \<open>
  Modelled from the spec: \<^verbatim>\<open>deleteNodeNetworkEntries\<close>, which is not part of
  delegate.go. The spec does not describe it; its call site says that it deletes
  all the entries for this network owned by the node.
\<close>

definition deleteNodeNetworkEntries :: "string \<Rightarrow> string \<Rightarrow> NetworkDB \<Rightarrow> NetworkDB" where
  "deleteNodeNetworkEntries nid nodeName nDB =
     nDB\<lparr>entries :=
           (\<lambda>k. case entries nDB k of
                  None \<Rightarrow> None
                | Some e \<Rightarrow> if fst k = nid \<and> entry_node e = nodeName then None else Some e)\<rparr>"

definition handleNetworkEvent :: "NetworkEvent \<Rightarrow> NetworkDB \<Rightarrow> bool \<times> NetworkDB" where
  "handleNetworkEvent nEvent nDB0 =
     (let nDB = nDB0\<lparr>networkClock := Witness (networkClock nDB0) (nwe_LTime nEvent)\<rparr>
      in if nwe_NodeName nEvent = cfg_NodeID (config nDB) then (False, nDB)
         else if networks nDB (nwe_NodeName nEvent) = None \<and> nwe_Type nEvent = NetworkEventTypeLeave
         then (False, nDB)
         else
           (let nodeNetworks = (case networks nDB (nwe_NodeName nEvent) of
                                  None \<Rightarrow> Map.empty
                                | Some nn \<Rightarrow> nn);
                nDB1 = nDB\<lparr>networks := (networks nDB)(nwe_NodeName nEvent \<mapsto> nodeNetworks)\<rparr>
            in case nodeNetworks (nwe_NetworkID nEvent) of
                 Some n \<Rightarrow>
                   if net_ltime n \<ge> nwe_LTime nEvent then (False, nDB1)
                   else
                     (let leaving = (nwe_Type nEvent = NetworkEventTypeLeave);
                          n1 = n\<lparr>net_ltime := nwe_LTime nEvent, net_leaving := leaving\<rparr>;
                          n2 = (if leaving
                                then n1\<lparr>net_reapTime := cfg_reapNetworkInterval (config nDB1)\<rparr>
                                else n1);
                          nDB2 = nDB1\<lparr>networks := (networks nDB1)
                                   (nwe_NodeName nEvent \<mapsto> nodeNetworks(nwe_NetworkID nEvent \<mapsto> n2))\<rparr>;
                          nDB3 = (if leaving
                                  then deleteNodeNetworkEntries (nwe_NetworkID nEvent)
                                         (nwe_NodeName nEvent) nDB2
                                  else nDB2)
                      in (True,
                          if nwe_Type nEvent = NetworkEventTypeLeave
                          then deleteNetworkNode (nwe_NetworkID nEvent) (nwe_NodeName nEvent) nDB3
                          else addNetworkNode (nwe_NetworkID nEvent) (nwe_NodeName nEvent) nDB3))
               | None \<Rightarrow>
                   if nwe_Type nEvent = NetworkEventTypeLeave then (False, nDB1)
                   else if nodes nDB1 (nwe_NodeName nEvent) = None then (False, nDB1)
                   else
                     (True,
                      addNetworkNode (nwe_NetworkID nEvent) (nwe_NodeName nEvent)
                        (nDB1\<lparr>networks := (networks nDB1)
                           (nwe_NodeName nEvent \<mapsto>
                              nodeNetworks(nwe_NetworkID nEvent \<mapsto>
                                \<lparr>net_ltime = nwe_LTime nEvent, net_leaving = False,
                                 net_reapTime = 0\<rparr>))\<rparr>))))"

text \<open>
  \<^verbatim>\<open>MergeRemoteState\<close>. The two decoders of the wire format are parameters (\<open>None\<close> is
  their error). A message of another type than push-pull is logged and still
  merged, as in the source.
\<close>

datatype MessageType =
  MessageTypeInvalid | MessageTypeNetworkEvent | MessageTypeTableEvent | MessageTypePushPull
  | MessageTypeBulkSync | MessageTypeCompound | MessageTypeNodeEvent

record GossipMessage =
  gm_Type :: MessageType
  gm_Data :: bytes

definition networkEventOf :: "NetworkEntry \<Rightarrow> NetworkEvent" where
  "networkEventOf n =
     \<lparr>nwe_Type = (if npe_Leaving n then NetworkEventTypeLeave else NetworkEventTypeJoin),
      nwe_LTime = npe_LTime n,
      nwe_NodeName = npe_NodeName n,
      nwe_NetworkID = npe_NetworkID n\<rparr>"

fun mergeNetworks :: "NetworkEntry list \<Rightarrow> NetworkDB \<Rightarrow> NetworkDB" where
  "mergeNetworks [] nDB = nDB"
| "mergeNetworks (n # ns) nDB = mergeNetworks ns (snd (handleNetworkEvent (networkEventOf n) nDB))"

definition mergePushPull :: "NetworkPushPull \<Rightarrow> NetworkDB \<Rightarrow> NetworkDB" where
  "mergePushPull pp nDB =
     mergeNetworks (pp_Networks pp)
       (snd (handleNodeEvent
               \<lparr>nde_Type = NodeEventTypeJoin, nde_LTime = pp_LTime pp, nde_NodeName = pp_NodeName pp\<rparr>
               nDB))"

definition MergeRemoteState ::
  "(bytes \<Rightarrow> GossipMessage option) \<Rightarrow> (bytes \<Rightarrow> NetworkPushPull option)
     \<Rightarrow> bytes \<Rightarrow> bool \<Rightarrow> NetworkDB \<Rightarrow> NetworkDB" where
  "MergeRemoteState unmarshalGossip unmarshalPushPull buf isJoin nDB =
     (if length buf = 0 then nDB
      else
        (case unmarshalGossip buf of
           None \<Rightarrow> nDB
         | Some gMsg \<Rightarrow>
             (case unmarshalPushPull (gm_Data gMsg) of
                None \<Rightarrow> nDB
              | Some pp \<Rightarrow> mergePushPull pp nDB)))"

section \<open>Vocabulary of the properties\<close>

text \<open>The three topology checks of line 164, and the freshness check of line 175.\<close>

definition networkLeaving :: "string \<Rightarrow> NetworkDB \<Rightarrow> bool" where
  "networkLeaving nid nDB =
     (case thisNodeNetworks nDB nid of None \<Rightarrow> False | Some n \<Rightarrow> net_leaving n)"

definition ownerPresent :: "TableEvent \<Rightarrow> NetworkDB \<Rightarrow> bool" where
  "ownerPresent tEvent nDB =
     nodePresentIn (te_NodeName tEvent)
       (case networkNodes nDB (te_NetworkID tEvent) of None \<Rightarrow> [] | Some ns \<Rightarrow> ns)"

definition topologyChecksPass :: "TableEvent \<Rightarrow> NetworkDB \<Rightarrow> bool" where
  "topologyChecksPass tEvent nDB \<longleftrightarrow>
     thisNodeNetworks nDB (te_NetworkID tEvent) \<noteq> None
     \<and> \<not> networkLeaving (te_NetworkID tEvent) nDB
     \<and> ownerPresent tEvent nDB"

definition staleEvent :: "TableEvent \<Rightarrow> NetworkDB \<Rightarrow> bool" where
  "staleEvent tEvent nDB =
     (case getEntry (te_TableName tEvent) (te_NetworkID tEvent) (te_Key tEvent) nDB of
        None \<Rightarrow> False
      | Some p \<Rightarrow> te_LTime tEvent \<le> entry_ltime p)"

text \<open>The store after a table event that changed nothing but the table clock.\<close>

definition witnessed :: "TableEvent \<Rightarrow> NetworkDB \<Rightarrow> NetworkDB" where
  "witnessed tEvent nDB = nDB\<lparr>tableClock := max (tableClock nDB) (te_LTime tEvent)\<rparr>"

text \<open>The watch event of a table event, with the given value and previous value.\<close>

definition watchEventFor :: "TableEvent \<Rightarrow> bytes \<Rightarrow> bytes \<Rightarrow> WatchEvent" where
  "watchEventFor tEvent v prev =
     \<lparr>we_Table = te_TableName tEvent, we_NetworkID = te_NetworkID tEvent,
      we_Key = te_Key tEvent, we_Value = v, we_Prev = prev\<rparr>"

text \<open>
  The store that \<^verbatim>\<open>handleTableMessage\<close> leaves when it queues nothing: the store as
  it was for a message of the local node, and otherwise the store after
  \<^verbatim>\<open>handleTableEvent\<close>, as the other handlers left it if the second look at
  \<^verbatim>\<open>thisNodeNetworks\<close> was reached.
\<close>

definition notEnqueued ::
  "(NetworkDB \<Rightarrow> NetworkDB) \<Rightarrow> (bytes \<Rightarrow> bytes option) \<Rightarrow> TableEvent \<Rightarrow> bytes \<Rightarrow> bool
     \<Rightarrow> NetworkDB \<Rightarrow> NetworkDB" where
  "notEnqueued others encodeRawMessage tEvent buf isBulkSync nDB =
     (if te_NodeName tEvent = cfg_NodeID (config nDB) then nDB
      else if fst (handleTableEvent tEvent isBulkSync nDB) \<and> encodeRawMessage buf \<noteq> None
      then others (snd (handleTableEvent tEvent isBulkSync nDB))
      else snd (handleTableEvent tEvent isBulkSync nDB))"

text \<open>The membership state and the Lamport time of a node, and a stale node event.\<close>

definition nodeStateOf :: "string \<Rightarrow> NetworkDB \<Rightarrow> nodeState" where
  "nodeStateOf nodeName nDB =
     (case findNode nodeName nDB of None \<Rightarrow> nodeNotFound | Some (n, st) \<Rightarrow> st)"

definition staleNodeEvent :: "NodeEvent \<Rightarrow> NetworkDB \<Rightarrow> bool" where
  "staleNodeEvent nEvent nDB =
     (case findNode (nde_NodeName nEvent) nDB of
        None \<Rightarrow> False
      | Some (n, st) \<Rightarrow> nde_LTime nEvent \<le> node_ltime n)"

text \<open>The stored record of a (node, network) pair; a store without nodes or records.\<close>

definition membershipRecord :: "string \<Rightarrow> string \<Rightarrow> NetworkDB \<Rightarrow> network option" where
  "membershipRecord nodeName nid nDB =
     (case networks nDB nodeName of None \<Rightarrow> None | Some nn \<Rightarrow> nn nid)"

definition noNodes :: "NetworkDB \<Rightarrow> bool" where
  "noNodes nDB \<longleftrightarrow>
     nodes nDB = Map.empty \<and> leftNodes nDB = Map.empty \<and> failedNodes nDB = Map.empty"

definition noMembership :: "NetworkDB \<Rightarrow> bool" where
  "noMembership nDB \<longleftrightarrow> (\<forall>nodeName nid. membershipRecord nodeName nid nDB = None)"

text \<open>
  What a snapshot says of a (node, network) pair, as a stored record: the first
  record of the pair, when it is not leaving. A snapshot that can be merged names
  each pair once, and only nodes that the membership layer knows alive and that are
  not the local node.
\<close>

definition recordKey :: "NetworkEntry \<Rightarrow> string \<times> string" where
  "recordKey r = (npe_NodeName r, npe_NetworkID r)"

definition snapshotRecord :: "NetworkEntry list \<Rightarrow> string \<Rightarrow> string \<Rightarrow> network option" where
  "snapshotRecord rs nodeName nid =
     (case find (\<lambda>r. recordKey r = (nodeName, nid)) rs of
        None \<Rightarrow> None
      | Some r \<Rightarrow>
          if npe_Leaving r then None
          else Some \<lparr>net_ltime = npe_LTime r, net_leaving = False, net_reapTime = 0\<rparr>)"

definition aliveRemote :: "NetworkDB \<Rightarrow> NetworkEntry \<Rightarrow> bool" where
  "aliveRemote nDB r \<longleftrightarrow>
     nodes nDB (npe_NodeName r) \<noteq> None \<and> npe_NodeName r \<noteq> cfg_NodeID (config nDB)"

definition mergeable :: "NetworkEntry list \<Rightarrow> NetworkDB \<Rightarrow> bool" where
  "mergeable rs nDB \<longleftrightarrow> distinct (map recordKey rs) \<and> list_all (aliveRemote nDB) rs"

section \<open>Concrete stores and messages\<close>

text \<open>
  The local node \<open>local\<close> is a synchronised member of network \<open>net1\<close>, whose other
  member \<open>remote\<close> is alive. Entries are reaped after 1800 seconds.
\<close>

definition exampleConfig :: Config where
  "exampleConfig =
     \<lparr>cfg_NodeID = ''local'', cfg_reapEntryInterval = 1800 * Second,
      cfg_reapNetworkInterval = 1825 * Second\<rparr>"

definition exampleNetwork :: thisNodeNetwork where
  "exampleNetwork =
     \<lparr>net_ltime = 1, net_leaving = False, net_reapTime = 0, inSync = True,
      tableRebroadcasts = []\<rparr>"

definition exampleDB :: NetworkDB where
  "exampleDB =
     \<lparr>config = exampleConfig, networkClock = 1, tableClock = 1,
      nodes = [''remote'' \<mapsto> \<lparr>node_Name = ''remote'', node_ltime = 1, node_reapTime = 0\<rparr>],
      leftNodes = Map.empty, failedNodes = Map.empty, networks = Map.empty,
      thisNodeNetworks = [''net1'' \<mapsto> exampleNetwork],
      networkNodes = [''net1'' \<mapsto> [''local'', ''remote'']],
      entries = Map.empty, broadcaster = []\<rparr>"

definition emptyDB :: NetworkDB where
  "emptyDB =
     \<lparr>config = exampleConfig, networkClock = 0, tableClock = 0,
      nodes = Map.empty, leftNodes = Map.empty, failedNodes = Map.empty,
      networks = Map.empty, thisNodeNetworks = Map.empty, networkNodes = Map.empty,
      entries = Map.empty, broadcaster = []\<rparr>"

definition createEvent :: TableEvent where
  "createEvent =
     \<lparr>te_Type = TableEventTypeCreate, te_LTime = 5, te_NodeName = ''remote'',
      te_NetworkID = ''net1'', te_TableName = ''t1'', te_Key = ''k1'', te_Value = [1, 2, 3],
      te_ResidualReapTime = 0\<rparr>"

definition deleteEvent :: TableEvent where
  "deleteEvent =
     \<lparr>te_Type = TableEventTypeDelete, te_LTime = 6, te_NodeName = ''remote'',
      te_NetworkID = ''net1'', te_TableName = ''t1'', te_Key = ''k1'', te_Value = [],
      te_ResidualReapTime = 600\<rparr>"

definition ownEvent :: TableEvent where
  "ownEvent = createEvent\<lparr>te_NodeName := ''local'', te_LTime := 7\<rparr>"

definition strangerEvent :: TableEvent where
  "strangerEvent = createEvent\<lparr>te_NodeName := ''ghost''\<rparr>"

text \<open>The store after the create event, and the same store with two queued messages.\<close>

definition createdDB :: NetworkDB where
  "createdDB = snd (handleTableEvent createEvent False exampleDB)"

definition queuedMessage :: "string \<Rightarrow> tableEventMessage" where
  "queuedMessage k = \<lparr>tem_msg = [], tem_id = ''net1'', tem_tname = ''t1'', tem_key = k\<rparr>"

definition busyDB :: NetworkDB where
  "busyDB =
     exampleDB\<lparr>thisNodeNetworks :=
       [''net1'' \<mapsto> exampleNetwork\<lparr>tableRebroadcasts := [queuedMessage ''a'', queuedMessage ''b'']\<rparr>]\<rparr>"

text \<open>A decoder that reads the given event, an encoder that prefixes a tag byte.\<close>

definition decodeAs :: "TableEvent \<Rightarrow> bytes \<Rightarrow> TableEvent option" where
  "decodeAs tEvent buf = Some tEvent"

definition encodeTagged :: "bytes \<Rightarrow> bytes option" where
  "encodeTagged buf = Some (3 # buf)"

definition nothingElseRuns :: "NetworkDB \<Rightarrow> NetworkDB" where
  "nothingElseRuns nDB = nDB"

text \<open>Another handler that makes the local node leave network \<open>net1\<close>.\<close>

definition leaveNet1 :: "NetworkDB \<Rightarrow> NetworkDB" where
  "leaveNet1 nDB =
     nDB\<lparr>thisNodeNetworks :=
       (case thisNodeNetworks nDB ''net1'' of
          None \<Rightarrow> thisNodeNetworks nDB
        | Some n \<Rightarrow> (thisNodeNetworks nDB)(''net1'' \<mapsto> n\<lparr>net_leaving := True\<rparr>))\<rparr>"

text \<open>Node events for \<open>remote\<close>, and a snapshot sent by \<open>remote\<close>.\<close>

definition leaveEvent :: NodeEvent where
  "leaveEvent = \<lparr>nde_Type = NodeEventTypeLeave, nde_LTime = 4, nde_NodeName = ''remote''\<rparr>"

definition oldJoinEvent :: NodeEvent where
  "oldJoinEvent = \<lparr>nde_Type = NodeEventTypeJoin, nde_LTime = 1, nde_NodeName = ''remote''\<rparr>"

definition remoteSnapshot :: NetworkPushPull where
  "remoteSnapshot =
     \<lparr>pp_LTime = 3, pp_NodeName = ''remote'',
      pp_Networks = [\<lparr>npe_LTime = 2, npe_NetworkID = ''net1'', npe_NodeName = ''remote'',
                      npe_Leaving = False\<rparr>]\<rparr>"

definition decodeGossip :: "bytes \<Rightarrow> GossipMessage option" where
  "decodeGossip buf = Some \<lparr>gm_Type = MessageTypePushPull, gm_Data = buf\<rparr>"

definition decodeSnapshotAs :: "NetworkPushPull \<Rightarrow> bytes \<Rightarrow> NetworkPushPull option" where
  "decodeSnapshotAs pp buf = Some pp"

section \<open>Table events: what the handler does in each case\<close>

lemma handleTableEvent_reject:
  "\<not> topologyChecksPass ev nDB \<Longrightarrow> handleTableEvent ev b nDB = (False, witnessed ev nDB)"
  by (auto simp: handleTableEvent_def topologyChecksPass_def networkLeaving_def ownerPresent_def
        witnessed_def Let_def Witness_def split: option.splits)

lemma handleTableEvent_stale:
  "staleEvent ev nDB \<Longrightarrow> handleTableEvent ev b nDB = (False, witnessed ev nDB)"
  by (auto simp: handleTableEvent_def staleEvent_def getEntry_def witnessed_def Let_def Witness_def
      split: option.splits)

lemma handleTableEvent_accept:
  "topologyChecksPass ev nDB \<Longrightarrow> \<not> staleEvent ev nDB \<Longrightarrow>
   thisNodeNetworks nDB (te_NetworkID ev) = Some n \<Longrightarrow>
   handleTableEvent ev b nDB =
     (if getEntry (te_TableName ev) (te_NetworkID ev) (te_Key ev) nDB = None
         \<and> te_Type ev = TableEventTypeDelete
      then (b \<and> inSync n
              \<and> entry_reapTime (mkEntry ev nDB) > cfg_reapEntryInterval (config nDB) sdiv 6,
            nDB\<lparr>tableClock := max (tableClock nDB) (te_LTime ev),
                entries := (entries nDB)
                  ((te_NetworkID ev, te_TableName ev, te_Key ev) \<mapsto> mkEntry ev nDB)\<rparr>)
      else (inSync n,
            nDB\<lparr>tableClock := max (tableClock nDB) (te_LTime ev),
                entries := (entries nDB)
                  ((te_NetworkID ev, te_TableName ev, te_Key ev) \<mapsto> mkEntry ev nDB),
                broadcaster := broadcaster nDB
                  @ watchEvents ev (getEntry (te_TableName ev) (te_NetworkID ev) (te_Key ev) nDB)\<rparr>))"
  by (auto simp: handleTableEvent_def topologyChecksPass_def networkLeaving_def ownerPresent_def
        staleEvent_def getEntry_def createOrUpdateEntry_def mkEntry_def Let_def Witness_def
      split: option.splits)

lemma topologyChecksPass_witnessed:
  "topologyChecksPass ev (witnessed ev' nDB) = topologyChecksPass ev nDB"
  by (simp add: topologyChecksPass_def networkLeaving_def ownerPresent_def witnessed_def)

lemma staleEvent_witnessed: "staleEvent ev (witnessed ev' nDB) = staleEvent ev nDB"
  by (simp add: staleEvent_def getEntry_def witnessed_def)

lemma witnessed_idem: "witnessed ev (witnessed ev nDB) = witnessed ev nDB"
  by (simp add: witnessed_def)

lemma mkEntry_ltime: "entry_ltime (mkEntry ev nDB) = te_LTime ev"
  by (simp add: mkEntry_def Let_def)

lemma handleTableEvent_clock:
  "tableClock (snd (handleTableEvent ev b nDB)) = max (tableClock nDB) (te_LTime ev)"
  by (auto simp: handleTableEvent_def Let_def Witness_def createOrUpdateEntry_def
      split: option.splits)

lemma handleTableEvent_again:
  "handleTableEvent ev b' (snd (handleTableEvent ev b nDB))
     = (False, snd (handleTableEvent ev b nDB))"
proof (cases "topologyChecksPass ev nDB")
  case False
  then have "\<not> topologyChecksPass ev (witnessed ev nDB)"
    by (simp add: topologyChecksPass_witnessed)
  from handleTableEvent_reject[OF this] handleTableEvent_reject[OF False]
  show ?thesis by (simp add: witnessed_idem)
next
  case top: True
  show ?thesis
  proof (cases "staleEvent ev nDB")
    case True
    then have "staleEvent ev (witnessed ev nDB)"
      by (simp add: staleEvent_witnessed)
    from handleTableEvent_stale[OF this] handleTableEvent_stale[OF True]
    show ?thesis by (simp add: witnessed_idem)
  next
    case False
    from top obtain n where n: "thisNodeNetworks nDB (te_NetworkID ev) = Some n"
      by (auto simp: topologyChecksPass_def)
    have st: "staleEvent ev (snd (handleTableEvent ev b nDB))"
      by (simp add: handleTableEvent_accept[OF top False n] staleEvent_def getEntry_def
            mkEntry_ltime)
    have "witnessed ev (snd (handleTableEvent ev b nDB)) = snd (handleTableEvent ev b nDB)"
      by (simp add: witnessed_def handleTableEvent_clock)
    with handleTableEvent_stale[OF st] show ?thesis by simp
  qed
qed

section \<open>Node and network events: what the handlers do in each case\<close>

lemma findNode_clock:
  "findNode name (nDB\<lparr>networkClock := c\<rparr>) = findNode name nDB"
  by (simp add: findNode_def cong: option.case_cong)

lemma findNode_Some:
  "findNode name nDB = Some (n, st) \<longleftrightarrow>
     (st = nodeActiveState \<and> nodes nDB name = Some n)
     \<or> (st = nodeLeftState \<and> nodes nDB name = None \<and> leftNodes nDB name = Some n)
     \<or> (st = nodeFailedState \<and> nodes nDB name = None \<and> leftNodes nDB name = None
          \<and> failedNodes nDB name = Some n)"
  by (auto simp: findNode_def split: option.splits)

lemma findNode_put_same:
  "findNode name nDB = Some (n, st) \<Longrightarrow>
   findNode name (putNode st name (Some n') nDB) = Some (n', st)"
  by (auto simp: findNode_Some putNode_def)

lemma nodes_put_same:
  "findNode name nDB = Some (n, st) \<Longrightarrow>
   nodes (putNode st name (Some n') nDB) name = (if st = nodeActiveState then Some n' else None)"
  by (auto simp: findNode_Some putNode_def)

lemma putNode_clock: "networkClock (putNode st name n nDB) = networkClock nDB"
  by (cases st) (simp_all add: putNode_def)

lemma changeNodeState_clock:
  "changeNodeState name st nDB = Some (m, nDB') \<Longrightarrow> networkClock nDB' = networkClock nDB"
  by (auto simp: changeNodeState_def putNode_clock split: option.splits prod.splits if_splits)

lemma handleNodeEvent_clock:
  "networkClock (snd (handleNodeEvent ev nDB)) = max (networkClock nDB) (nde_LTime ev)"
  by (auto simp: handleNodeEvent_def Let_def Witness_def putNode_clock
      dest: changeNodeState_clock split: option.splits NodeEventType.splits prod.splits)

lemma handleNodeEvent_unknown:
  "findNode (nde_NodeName ev) nDB = None \<Longrightarrow>
   handleNodeEvent ev nDB
     = (False, nDB\<lparr>networkClock := max (networkClock nDB) (nde_LTime ev)\<rparr>)"
  by (simp add: handleNodeEvent_def Let_def Witness_def findNode_clock)

lemma handleNodeEvent_stale:
  "findNode (nde_NodeName ev) nDB = Some (n, st) \<Longrightarrow> nde_LTime ev \<le> node_ltime n \<Longrightarrow>
   handleNodeEvent ev nDB
     = (False, nDB\<lparr>networkClock := max (networkClock nDB) (nde_LTime ev)\<rparr>)"
  by (simp add: handleNodeEvent_def Let_def Witness_def findNode_clock)

lemma handleNodeEvent_not_alive:
  assumes "findNode (nde_NodeName ev) nDB = Some (n, st)" and "node_ltime n < nde_LTime ev"
    and "nodes nDB (nde_NodeName ev) = None"
  shows "handleNodeEvent ev nDB =
     (False, putNode st (nde_NodeName ev) (Some (n\<lparr>node_ltime := nde_LTime ev\<rparr>))
               (nDB\<lparr>networkClock := max (networkClock nDB) (nde_LTime ev)\<rparr>))"
proof -
  have st: "st \<noteq> nodeActiveState" using assms(1,3) by (auto simp: findNode_Some)
  have f: "findNode (nde_NodeName ev) (nDB\<lparr>networkClock := c\<rparr>) = Some (n, st)" for c
    using assms(1) by (simp add: findNode_clock)
  have "nodes (putNode st (nde_NodeName ev) (Some n') (nDB\<lparr>networkClock := c\<rparr>))
          (nde_NodeName ev) = None" for n' c
    using nodes_put_same[OF f] st by simp
  moreover have "\<not> nde_LTime ev \<le> node_ltime n" using assms(2) by (simp add: not_le)
  ultimately show ?thesis
    by (simp add: handleNodeEvent_def Let_def Witness_def findNode_clock assms(1))
qed

lemma handleNodeEvent_alive:
  assumes "nodes nDB (nde_NodeName ev) = Some n" and "node_ltime n < nde_LTime ev"
    and "node_Name n = nde_NodeName ev"
  shows "handleNodeEvent ev nDB =
     (case nde_Type ev of
        NodeEventTypeJoin \<Rightarrow>
          (False, nDB\<lparr>networkClock := max (networkClock nDB) (nde_LTime ev),
                      nodes := (nodes nDB)
                        (nde_NodeName ev \<mapsto> n\<lparr>node_ltime := nde_LTime ev\<rparr>)\<rparr>)
      | NodeEventTypeLeave \<Rightarrow>
          (True, nDB\<lparr>networkClock := max (networkClock nDB) (nde_LTime ev),
                     nodes := (nodes nDB)(nde_NodeName ev := None),
                     leftNodes := (leftNodes nDB)
                       (nde_NodeName ev \<mapsto> n\<lparr>node_ltime := nde_LTime ev\<rparr>)\<rparr>)
      | NodeEventTypeInvalid \<Rightarrow>
          (False, nDB\<lparr>networkClock := max (networkClock nDB) (nde_LTime ev),
                      nodes := (nodes nDB)
                        (nde_NodeName ev \<mapsto> n\<lparr>node_ltime := nde_LTime ev\<rparr>)\<rparr>))"
proof -
  have f: "findNode (nde_NodeName ev)
             (nDB\<lparr>networkClock := Witness (networkClock nDB) (nde_LTime ev)\<rparr>)
             = Some (n, nodeActiveState)"
    using assms(1) by (simp add: findNode_Some)
  have "\<not> nde_LTime ev \<le> node_ltime n" using assms(2) by (simp add: not_le)
  then show ?thesis
    using assms(1,3)
    by (simp add: handleNodeEvent_def Let_def f putNode_def changeNodeState_def findNode_def
          Witness_def split: NodeEventType.splits)
qed

lemma handleNodeEvent_dropped:
  assumes "nodes nDB (nde_NodeName ev) = None \<or> staleNodeEvent ev nDB"
  shows "\<not> fst (handleNodeEvent ev nDB)
         \<and> nodeStateOf (nde_NodeName ev) (snd (handleNodeEvent ev nDB))
             = nodeStateOf (nde_NodeName ev) nDB"
proof (cases "findNode (nde_NodeName ev) nDB")
  case None
  then show ?thesis
    by (simp add: handleNodeEvent_unknown nodeStateOf_def findNode_clock)
next
  case (Some p)
  then obtain n st where f: "findNode (nde_NodeName ev) nDB = Some (n, st)"
    by (cases p) auto
  show ?thesis
  proof (cases "nde_LTime ev \<le> node_ltime n")
    case True
    then show ?thesis
      by (simp add: handleNodeEvent_stale[OF f] nodeStateOf_def findNode_clock)
  next
    case False
    then have fresh: "node_ltime n < nde_LTime ev" by (simp add: not_le)
    from False f assms have dead: "nodes nDB (nde_NodeName ev) = None"
      by (simp add: staleNodeEvent_def)
    have f': "findNode (nde_NodeName ev) (nDB\<lparr>networkClock := c\<rparr>) = Some (n, st)" for c
      using f by (simp add: findNode_clock)
    show ?thesis
      by (simp add: handleNodeEvent_not_alive[OF f fresh dead] nodeStateOf_def
            findNode_put_same[OF f'] f)
  qed
qed

lemma handleNodeEvent_noNodes:
  "noNodes nDB \<Longrightarrow>
   snd (handleNodeEvent ev nDB) = nDB\<lparr>networkClock := max (networkClock nDB) (nde_LTime ev)\<rparr>"
  by (simp add: handleNodeEvent_def Let_def findNode_def noNodes_def Witness_def)

lemma handleNetworkEvent_unknown:
  assumes "nodes nDB (nwe_NodeName ev) = None"
    and "membershipRecord (nwe_NodeName ev) (nwe_NetworkID ev) nDB = None"
  shows "handleNetworkEvent ev nDB =
     (False,
      if nwe_NodeName ev = cfg_NodeID (config nDB)
         \<or> (networks nDB (nwe_NodeName ev) = None \<and> nwe_Type ev = NetworkEventTypeLeave)
      then nDB\<lparr>networkClock := max (networkClock nDB) (nwe_LTime ev)\<rparr>
      else nDB\<lparr>networkClock := max (networkClock nDB) (nwe_LTime ev),
               networks := (networks nDB)
                 (nwe_NodeName ev \<mapsto>
                    (case networks nDB (nwe_NodeName ev) of
                       None \<Rightarrow> Map.empty
                     | Some nn \<Rightarrow> nn))\<rparr>)"
proof -
  have l: "(case networks nDB (nwe_NodeName ev) of None \<Rightarrow> Map.empty | Some nn \<Rightarrow> nn)
             (nwe_NetworkID ev) = None"
    using assms(2) by (simp add: membershipRecord_def split: option.splits)
  show ?thesis
    using assms(1) by (simp add: handleNetworkEvent_def Let_def l Witness_def)
qed

lemma handleNetworkEvent_noNodes:
  assumes "noNodes nDB" and "noMembership nDB"
  shows "noNodes (snd (handleNetworkEvent ev nDB))
         \<and> noMembership (snd (handleNetworkEvent ev nDB))"
proof -
  have a: "nodes nDB (nwe_NodeName ev) = None" using assms(1) by (simp add: noNodes_def)
  have c: "membershipRecord x y nDB = None" for x y using assms(2) by (simp add: noMembership_def)
  have d: "nn y = None" if "networks nDB x = Some nn" for x nn y
    using c[of x y] that by (simp add: membershipRecord_def)
  show ?thesis
    unfolding handleNetworkEvent_unknown[OF a c] using assms(1)
    by (auto simp: noNodes_def noMembership_def membershipRecord_def d split: option.splits)
qed

lemma mergeNetworks_noNodes:
  "noNodes nDB \<Longrightarrow> noMembership nDB \<Longrightarrow>
   noNodes (mergeNetworks ns nDB) \<and> noMembership (mergeNetworks ns nDB)"
  by (induction ns arbitrary: nDB) (simp_all add: handleNetworkEvent_noNodes)

lemma mergePushPull_noNodes:
  assumes "noNodes nDB" and "noMembership nDB"
  shows "noNodes (mergePushPull pp nDB) \<and> noMembership (mergePushPull pp nDB)"
  unfolding mergePushPull_def
proof (rule mergeNetworks_noNodes)
  show "noNodes (snd (handleNodeEvent
          \<lparr>nde_Type = NodeEventTypeJoin, nde_LTime = pp_LTime pp, nde_NodeName = pp_NodeName pp\<rparr>
          nDB))"
    using assms(1) by (simp add: handleNodeEvent_noNodes) (simp add: noNodes_def)
  show "noMembership (snd (handleNodeEvent
          \<lparr>nde_Type = NodeEventTypeJoin, nde_LTime = pp_LTime pp, nde_NodeName = pp_NodeName pp\<rparr>
          nDB))"
    using assms by (simp add: handleNodeEvent_noNodes) (simp add: noMembership_def membershipRecord_def)
qed

lemma nodeStateOf_active:
  "nodes nDB name = Some n \<Longrightarrow> nodeStateOf name nDB = nodeActiveState"
  by (simp add: nodeStateOf_def findNode_def)

lemma nodeStateOf_left:
  "nodes nDB name = None \<Longrightarrow> leftNodes nDB name = Some n \<Longrightarrow>
   nodeStateOf name nDB = nodeLeftState"
  by (simp add: nodeStateOf_def findNode_def)

lemma addNetworkNode_frame:
  "networks (addNetworkNode nid name nDB) = networks nDB"
  "nodes (addNetworkNode nid name nDB) = nodes nDB"
  "config (addNetworkNode nid name nDB) = config nDB"
  by (simp_all add: addNetworkNode_def Let_def)

lemma handleNetworkEvent_first_seen:
  assumes "aliveRemote nDB r"
    and "membershipRecord (npe_NodeName r) (npe_NetworkID r) nDB = None"
  shows "membershipRecord x y (snd (handleNetworkEvent (networkEventOf r) nDB))
           = (if x = npe_NodeName r \<and> y = npe_NetworkID r \<and> \<not> npe_Leaving r
              then Some \<lparr>net_ltime = npe_LTime r, net_leaving = False, net_reapTime = 0\<rparr>
              else membershipRecord x y nDB)"
    and "nodes (snd (handleNetworkEvent (networkEventOf r) nDB)) = nodes nDB"
    and "config (snd (handleNetworkEvent (networkEventOf r) nDB)) = config nDB"
proof -
  have l: "(case networks nDB (npe_NodeName r) of None \<Rightarrow> Map.empty | Some nn \<Rightarrow> nn)
             (npe_NetworkID r) = None"
    using assms(2) by (simp add: membershipRecord_def split: option.splits)
  have a: "nodes nDB (npe_NodeName r) \<noteq> None" "npe_NodeName r \<noteq> cfg_NodeID (config nDB)"
    using assms(1) by (simp_all add: aliveRemote_def)
  have h: "handleNetworkEvent (networkEventOf r) nDB =
     (if npe_Leaving r
      then (False,
            if networks nDB (npe_NodeName r) = None
            then nDB\<lparr>networkClock := max (networkClock nDB) (npe_LTime r)\<rparr>
            else nDB\<lparr>networkClock := max (networkClock nDB) (npe_LTime r),
                     networks := (networks nDB)
                       (npe_NodeName r \<mapsto>
                          (case networks nDB (npe_NodeName r) of
                             None \<Rightarrow> Map.empty
                           | Some nn \<Rightarrow> nn))\<rparr>)
      else (True,
            addNetworkNode (npe_NetworkID r) (npe_NodeName r)
              (nDB\<lparr>networkClock := max (networkClock nDB) (npe_LTime r),
                   networks := (networks nDB)
                     (npe_NodeName r \<mapsto>
                        (case networks nDB (npe_NodeName r) of
                           None \<Rightarrow> Map.empty
                         | Some nn \<Rightarrow> nn)
                        (npe_NetworkID r \<mapsto>
                           \<lparr>net_ltime = npe_LTime r, net_leaving = False,
                            net_reapTime = 0\<rparr>))\<rparr>)))"
    using a by (auto simp: handleNetworkEvent_def networkEventOf_def Let_def l Witness_def)
  show "membershipRecord x y (snd (handleNetworkEvent (networkEventOf r) nDB))
           = (if x = npe_NodeName r \<and> y = npe_NetworkID r \<and> \<not> npe_Leaving r
              then Some \<lparr>net_ltime = npe_LTime r, net_leaving = False, net_reapTime = 0\<rparr>
              else membershipRecord x y nDB)"
    using assms(2)
    by (auto simp: h membershipRecord_def addNetworkNode_frame split: option.splits)
  show "nodes (snd (handleNetworkEvent (networkEventOf r) nDB)) = nodes nDB"
    by (simp add: h addNetworkNode_frame)
  show "config (snd (handleNetworkEvent (networkEventOf r) nDB)) = config nDB"
    by (simp add: h addNetworkNode_frame)
qed

lemma snapshotRecord_Cons:
  "snapshotRecord (r # rs) x y =
     (if recordKey r = (x, y)
      then (if npe_Leaving r then None
            else Some \<lparr>net_ltime = npe_LTime r, net_leaving = False, net_reapTime = 0\<rparr>)
      else snapshotRecord rs x y)"
  by (simp add: snapshotRecord_def)

lemma snapshotRecord_absent:
  "(x, y) \<notin> set (map recordKey rs) \<Longrightarrow> snapshotRecord rs x y = None"
  by (induction rs) (auto simp: snapshotRecord_Cons snapshotRecord_def)

lemma mergeNetworks_records:
  assumes "mergeable rs nDB"
    and "list_all (\<lambda>r. membershipRecord (npe_NodeName r) (npe_NetworkID r) nDB = None) rs"
  shows "membershipRecord x y (mergeNetworks rs nDB)
           = (if (x, y) \<in> set (map recordKey rs) then snapshotRecord rs x y
              else membershipRecord x y nDB)"
  using assms
proof (induction rs arbitrary: nDB)
  case Nil
  then show ?case by simp
next
  case (Cons r rs)
  let ?nDB = "snd (handleNetworkEvent (networkEventOf r) nDB)"
  from Cons.prems have ar: "aliveRemote nDB r" and none: "membershipRecord (npe_NodeName r) (npe_NetworkID r) nDB = None"
    and fresh: "recordKey r \<notin> set (map recordKey rs)" and d: "distinct (map recordKey rs)"
    and al: "list_all (aliveRemote nDB) rs"
    and nn: "list_all (\<lambda>r. membershipRecord (npe_NodeName r) (npe_NetworkID r) nDB = None) rs"
    by (simp_all add: mergeable_def)
  note step = handleNetworkEvent_first_seen[OF ar none]
  have "aliveRemote ?nDB r' = aliveRemote nDB r'" for r'
    by (simp add: aliveRemote_def step(2,3))
  then have "aliveRemote ?nDB = aliveRemote nDB" by (rule ext)
  with al have al': "list_all (aliveRemote ?nDB) rs" by simp
  have ne: "\<not> (npe_NodeName r' = npe_NodeName r \<and> npe_NetworkID r' = npe_NetworkID r)"
    if "r' \<in> set rs" for r'
  proof
    assume "npe_NodeName r' = npe_NodeName r \<and> npe_NetworkID r' = npe_NetworkID r"
    then have "recordKey r' = recordKey r" by (simp add: recordKey_def)
    moreover from that have "recordKey r' \<in> set (map recordKey rs)" by simp
    ultimately have "recordKey r \<in> set (map recordKey rs)" by simp
    with fresh show False by simp
  qed
  have "membershipRecord (npe_NodeName r') (npe_NetworkID r') ?nDB = None"
    if "r' \<in> set rs" for r'
    using nn ne[OF that] that by (auto simp: list_all_iff step(1))
  then have nn':
    "list_all (\<lambda>r. membershipRecord (npe_NodeName r) (npe_NetworkID r) ?nDB = None) rs"
    by (simp add: list_all_iff)
  have m: "mergeable rs ?nDB" using d al' by (simp add: mergeable_def)
  have ih: "membershipRecord x y (mergeNetworks rs ?nDB)
           = (if (x, y) \<in> set (map recordKey rs) then snapshotRecord rs x y
              else membershipRecord x y ?nDB)"
    by (rule Cons.IH[OF m nn'])
  show ?case
  proof (cases "recordKey r = (x, y)")
    case True
    then have "(x, y) \<notin> set (map recordKey rs)" using fresh by simp
    with True none show ?thesis
      by (auto simp: ih step(1) snapshotRecord_Cons recordKey_def)
  next
    case False
    then show ?thesis
      by (auto simp: ih step(1) snapshotRecord_Cons recordKey_def)
  qed
qed

lemma putNode_frame:
  "networks (putNode st name n nDB) = networks nDB"
  "config (putNode st name n nDB) = config nDB"
  by (cases st; simp add: putNode_def)+

lemma putNode_nodes_keep:
  "nodes nDB x \<noteq> None \<Longrightarrow> nodes (putNode st name (Some n) nDB) x \<noteq> None"
  by (cases st) (simp_all add: putNode_def)

lemma putNode_nodes_other:
  "st \<noteq> nodeActiveState \<Longrightarrow> nodes (putNode st name n nDB) = nodes nDB"
  by (cases st) (simp_all add: putNode_def)

lemma changeNodeState_active_frame:
  assumes "changeNodeState m nodeActiveState nDB = Some (b, nDB')"
  shows "networks nDB' = networks nDB" and "config nDB' = config nDB"
    and "nodes nDB x \<noteq> None \<Longrightarrow> nodes nDB' x \<noteq> None"
proof -
  from assms obtain n st where f: "findNode m nDB = Some (n, st)"
    by (auto simp: changeNodeState_def split: option.splits)
  have r: "nDB' = (if st = nodeActiveState then nDB
                   else putNode nodeActiveState m (Some n) (putNode st m None nDB))"
    using assms by (auto simp: changeNodeState_def f split: if_splits)
  show "networks nDB' = networks nDB" by (simp add: r putNode_frame)
  show "config nDB' = config nDB" by (simp add: r putNode_frame)
  show "nodes nDB' x \<noteq> None" if "nodes nDB x \<noteq> None"
  proof (cases "st = nodeActiveState")
    case True
    with r that show ?thesis by simp
  next
    case False
    then have "nodes (putNode st m None nDB) x \<noteq> None"
      using that putNode_nodes_other[of st m None nDB] by simp
    then have "nodes (putNode nodeActiveState m (Some n) (putNode st m None nDB)) x \<noteq> None"
      by (rule putNode_nodes_keep)
    with r False show ?thesis by simp
  qed
qed

lemma handleNodeEvent_join_frame:
  assumes "nde_Type ev = NodeEventTypeJoin"
  shows "networks (snd (handleNodeEvent ev nDB)) = networks nDB"
    and "config (snd (handleNodeEvent ev nDB)) = config nDB"
    and "nodes nDB x \<noteq> None \<Longrightarrow> nodes (snd (handleNodeEvent ev nDB)) x \<noteq> None"
proof -
  let ?c = "nDB\<lparr>networkClock := Witness (networkClock nDB) (nde_LTime ev)\<rparr>"
  have k: "networks (snd (handleNodeEvent ev nDB)) = networks nDB
           \<and> config (snd (handleNodeEvent ev nDB)) = config nDB
           \<and> (nodes nDB x \<noteq> None \<longrightarrow> nodes (snd (handleNodeEvent ev nDB)) x \<noteq> None)"
  proof (cases "findNode (nde_NodeName ev) nDB")
    case None
    then show ?thesis by (simp add: handleNodeEvent_unknown)
  next
    case (Some p)
    then obtain n st where f: "findNode (nde_NodeName ev) nDB = Some (n, st)"
      by (cases p) auto
    show ?thesis
    proof (cases "nde_LTime ev \<le> node_ltime n")
      case True
      then show ?thesis by (simp add: handleNodeEvent_stale[OF f])
    next
      case False
      let ?d = "putNode st (nde_NodeName ev) (Some (n\<lparr>node_ltime := nde_LTime ev\<rparr>)) ?c"
      have d: "networks ?d = networks nDB" "config ?d = config nDB"
        "nodes nDB x \<noteq> None \<longrightarrow> nodes ?d x \<noteq> None"
        using putNode_nodes_keep[of ?c x st "nde_NodeName ev"]
        by (simp_all add: putNode_frame)
      have h: "handleNodeEvent ev nDB =
                 (if nodes ?d (nde_NodeName ev) = None then (False, ?d)
                  else case changeNodeState (node_Name n) nodeActiveState ?d of
                         None \<Rightarrow> (False, ?d)
                       | Some (moved, nDB2) \<Rightarrow> (moved, nDB2))"
        using False assms by (simp add: handleNodeEvent_def Let_def findNode_clock f)
      show ?thesis
        using d
        by (auto simp: h dest: changeNodeState_active_frame split: option.splits)
    qed
  qed
  from k show "networks (snd (handleNodeEvent ev nDB)) = networks nDB" by simp
  from k show "config (snd (handleNodeEvent ev nDB)) = config nDB" by simp
  from k show "nodes (snd (handleNodeEvent ev nDB)) x \<noteq> None" if "nodes nDB x \<noteq> None"
    using that by simp
qed

lemma mergePushPull_records:
  assumes "mergeable (pp_Networks pp) nDB" and "networks nDB = Map.empty"
  shows "membershipRecord x y (mergePushPull pp nDB) = snapshotRecord (pp_Networks pp) x y"
proof -
  let ?ev = "\<lparr>nde_Type = NodeEventTypeJoin, nde_LTime = pp_LTime pp,
              nde_NodeName = pp_NodeName pp\<rparr>"
  let ?nDB = "snd (handleNodeEvent ?ev nDB)"
  have j: "nde_Type ?ev = NodeEventTypeJoin" by simp
  note fr = handleNodeEvent_join_frame[OF j, of nDB]
  have none: "membershipRecord a b ?nDB = None" for a b
    by (simp add: membershipRecord_def fr(1) assms(2))
  have "aliveRemote nDB r \<Longrightarrow> aliveRemote ?nDB r" for r
    using fr(3)[of "npe_NodeName r"] by (simp add: aliveRemote_def fr(2))
  then have "list_all (aliveRemote ?nDB) (pp_Networks pp)"
    using assms(1) by (simp add: mergeable_def list_all_iff)
  then have m: "mergeable (pp_Networks pp) ?nDB"
    using assms(1) by (simp add: mergeable_def)
  have n: "list_all (\<lambda>r. membershipRecord (npe_NodeName r) (npe_NetworkID r) ?nDB = None)
             (pp_Networks pp)"
    by (simp add: none list_all_iff)
  show ?thesis
    unfolding mergePushPull_def
    by (simp add: mergeNetworks_records[OF m n] none snapshotRecord_absent)
qed

lemma findNode_None:
  "findNode name nDB = None \<longleftrightarrow>
     nodes nDB name = None \<and> leftNodes nDB name = None \<and> failedNodes nDB name = None"
  by (auto simp: findNode_def split: option.splits)

lemma putNode_known:
  assumes "findNode name nDB = Some (n, st)"
  shows "(findNode x (putNode st name (Some n') nDB) = None) = (findNode x nDB = None)"
proof (cases st)
  case nodeNotFound
  then show ?thesis by (simp add: putNode_def)
next
  case nodeActiveState
  with assms show ?thesis by (auto simp: findNode_None findNode_Some putNode_def)
next
  case nodeLeftState
  with assms show ?thesis by (auto simp: findNode_None findNode_Some putNode_def)
next
  case nodeFailedState
  with assms show ?thesis by (auto simp: findNode_None findNode_Some putNode_def)
qed

lemma moveNode_known:
  assumes "findNode m nDB = Some (n, st)" and "new \<noteq> nodeNotFound"
  shows "(findNode x (putNode new m (Some n) (putNode st m None nDB)) = None)
           = (findNode x nDB = None)"
proof (cases "x = m")
  case True
  have "findNode m (putNode new m (Some n) (putNode st m None nDB)) \<noteq> None"
    using assms(2) by (cases new) (simp_all add: findNode_None putNode_def)
  with True assms(1) show ?thesis by simp
next
  case False
  then have "nodes (putNode new m (Some n) (putNode st m None nDB)) x = nodes nDB x"
    "leftNodes (putNode new m (Some n) (putNode st m None nDB)) x = leftNodes nDB x"
    "failedNodes (putNode new m (Some n) (putNode st m None nDB)) x = failedNodes nDB x"
    by (cases new; cases st; simp add: putNode_def)+
  then show ?thesis by (simp add: findNode_None)
qed

lemma changeNodeState_known:
  assumes "changeNodeState m new nDB = Some (b, nDB')" and "new \<noteq> nodeNotFound"
  shows "(findNode x nDB' = None) = (findNode x nDB = None)"
proof -
  from assms(1) obtain n st where f: "findNode m nDB = Some (n, st)"
    by (auto simp: changeNodeState_def split: option.splits)
  have r: "nDB' = (if st = new then nDB
                   else putNode new m (Some n) (putNode st m None nDB))"
    using assms(1) by (auto simp: changeNodeState_def f split: if_splits)
  show ?thesis
    by (simp add: r moveNode_known[OF f assms(2)])
qed

lemma handleNodeEvent_known:
  "(findNode x (snd (handleNodeEvent ev nDB)) = None) = (findNode x nDB = None)"
proof (cases "findNode (nde_NodeName ev) nDB")
  case None
  then show ?thesis by (simp add: handleNodeEvent_unknown findNode_clock)
next
  case (Some p)
  then obtain n st where f: "findNode (nde_NodeName ev) nDB = Some (n, st)"
    by (cases p) auto
  show ?thesis
  proof (cases "nde_LTime ev \<le> node_ltime n")
    case True
    then show ?thesis by (simp add: handleNodeEvent_stale[OF f] findNode_clock)
  next
    case False
    let ?c = "nDB\<lparr>networkClock := Witness (networkClock nDB) (nde_LTime ev)\<rparr>"
    let ?d = "putNode st (nde_NodeName ev) (Some (n\<lparr>node_ltime := nde_LTime ev\<rparr>)) ?c"
    let ?m = "node_Name (n\<lparr>node_ltime := nde_LTime ev\<rparr>)"
    have fc: "findNode (nde_NodeName ev) ?c = Some (n, st)"
      using f by (simp add: findNode_clock)
    have d: "(findNode x ?d = None) = (findNode x nDB = None)"
      using putNode_known[OF fc, of x] by (simp add: findNode_clock)
    have h: "handleNodeEvent ev nDB =
               (if nodes ?d (nde_NodeName ev) = None then (False, ?d)
                else case nde_Type ev of
                       NodeEventTypeJoin \<Rightarrow>
                         (case changeNodeState ?m nodeActiveState ?d of
                            None \<Rightarrow> (False, ?d)
                          | Some (moved, nDB2) \<Rightarrow> (moved, nDB2))
                     | NodeEventTypeLeave \<Rightarrow>
                         (case changeNodeState ?m nodeLeftState ?d of
                            None \<Rightarrow> (False, ?d)
                          | Some (moved, nDB2) \<Rightarrow> (moved, nDB2))
                     | NodeEventTypeInvalid \<Rightarrow> (False, ?d))"
      using False by (simp add: handleNodeEvent_def Let_def findNode_clock f)
    show ?thesis
    proof (cases "nde_Type ev")
      case NodeEventTypeInvalid
      then show ?thesis by (simp add: h d)
    next
      case NodeEventTypeJoin
      then show ?thesis
        using d changeNodeState_known[of ?m nodeActiveState ?d _ _ x]
        by (auto simp: h split: option.splits)
    next
      case NodeEventTypeLeave
      then show ?thesis
        using d changeNodeState_known[of ?m nodeLeftState ?d _ _ x]
        by (auto simp: h split: option.splits)
    qed
  qed
qed

lemma deleteNetworkNode_frame:
  "nodes (deleteNetworkNode nid name nDB) = nodes nDB"
  "leftNodes (deleteNetworkNode nid name nDB) = leftNodes nDB"
  "failedNodes (deleteNetworkNode nid name nDB) = failedNodes nDB"
  by (simp_all add: deleteNetworkNode_def split: option.splits)

lemma addNetworkNode_nodes_frame:
  "leftNodes (addNetworkNode nid name nDB) = leftNodes nDB"
  "failedNodes (addNetworkNode nid name nDB) = failedNodes nDB"
  by (simp_all add: addNetworkNode_def Let_def)

lemma deleteNodeNetworkEntries_frame:
  "nodes (deleteNodeNetworkEntries nid name nDB) = nodes nDB"
  "leftNodes (deleteNodeNetworkEntries nid name nDB) = leftNodes nDB"
  "failedNodes (deleteNodeNetworkEntries nid name nDB) = failedNodes nDB"
  by (simp_all add: deleteNodeNetworkEntries_def)

lemma handleNetworkEvent_nodes:
  "nodes (snd (handleNetworkEvent ev nDB)) = nodes nDB
   \<and> leftNodes (snd (handleNetworkEvent ev nDB)) = leftNodes nDB
   \<and> failedNodes (snd (handleNetworkEvent ev nDB)) = failedNodes nDB"
  by (simp add: handleNetworkEvent_def Let_def deleteNetworkNode_frame addNetworkNode_frame
        addNetworkNode_nodes_frame deleteNodeNetworkEntries_frame split: option.splits)

lemma handleNetworkEvent_known:
  "(findNode x (snd (handleNetworkEvent ev nDB)) = None) = (findNode x nDB = None)"
  by (simp add: findNode_None handleNetworkEvent_nodes)

lemma mergeNetworks_known:
  "(findNode x (mergeNetworks ns nDB) = None) = (findNode x nDB = None)"
  by (induction ns arbitrary: nDB) (simp_all add: handleNetworkEvent_known)

lemma MergeRemoteState_known:
  "(findNode x (MergeRemoteState unmarshalGossip unmarshalPushPull buf isJoin nDB) = None)
     = (findNode x nDB = None)"
  by (simp add: MergeRemoteState_def mergePushPull_def mergeNetworks_known handleNodeEvent_known
        split: option.splits)

lemma nodeStateOf_notFound: "(nodeStateOf x nDB = nodeNotFound) = (findNode x nDB = None)"
  by (auto simp: nodeStateOf_def findNode_def split: option.splits)

section \<open>The properties\<close>

text \<open>
  C1. A Delete event that passes the topology checks and whose key has no stored
  entry is gossiped again exactly when it came by bulk sync, the network is in sync
  and the reap time of the entry built from the event exceeds one sixth of the
  configured reap interval; outside bulk sync it is never gossiped again. The entry
  built from the event is stored; its reap time is the residual reap time of the
  event, or the configured interval when the event carries none.
\<close>

theorem unknown_delete_rebroadcast:
  assumes "topologyChecksPass ev nDB"
    and "te_Type ev = TableEventTypeDelete"
    and "getEntry (te_TableName ev) (te_NetworkID ev) (te_Key ev) nDB = None"
    and "thisNodeNetworks nDB (te_NetworkID ev) = Some n"
  shows "(fst (handleTableEvent ev isBulkSync nDB) \<longleftrightarrow>
            isBulkSync \<and> inSync n
            \<and> cfg_reapEntryInterval (config nDB) sdiv 6 < entry_reapTime (mkEntry ev nDB))
         \<and> \<not> fst (handleTableEvent ev False nDB)
         \<and> getEntry (te_TableName ev) (te_NetworkID ev) (te_Key ev)
               (snd (handleTableEvent ev isBulkSync nDB)) = Some (mkEntry ev nDB)
         \<and> entry_reapTime (mkEntry ev nDB)
             = (if te_ResidualReapTime ev = 0 then cfg_reapEntryInterval (config nDB)
                else te_ResidualReapTime ev * 1000000000)"
proof -
  have ns: "\<not> staleEvent ev nDB" using assms(3) by (simp add: staleEvent_def)
  show ?thesis
    using assms(2,3)
    by (simp add: handleTableEvent_accept[OF assms(1) ns assms(4)] getEntry_def mkEntry_def
          Let_def Second_def)
qed

theorem unknown_delete_rebroadcast_witness:
  "topologyChecksPass deleteEvent exampleDB
   \<and> getEntry ''t1'' ''net1'' ''k1'' exampleDB = None
   \<and> fst (handleTableEvent deleteEvent True exampleDB)
   \<and> \<not> fst (handleTableEvent deleteEvent False exampleDB)
   \<and> entry_reapTime (mkEntry deleteEvent exampleDB) = 600000000000"
proof -
  have h1: "topologyChecksPass deleteEvent exampleDB"
    by (simp add: topologyChecksPass_def networkLeaving_def ownerPresent_def deleteEvent_def
          exampleDB_def exampleNetwork_def)
  have h2: "te_Type deleteEvent = TableEventTypeDelete" by (simp add: deleteEvent_def)
  have h3: "getEntry (te_TableName deleteEvent) (te_NetworkID deleteEvent) (te_Key deleteEvent)
              exampleDB = None"
    by (simp add: getEntry_def exampleDB_def)
  have h4: "thisNodeNetworks exampleDB (te_NetworkID deleteEvent) = Some exampleNetwork"
    by (simp add: deleteEvent_def exampleDB_def)
  have c: "cfg_reapEntryInterval (config exampleDB) sdiv 6 = 300000000000"
    by (simp add: exampleDB_def exampleConfig_def Second_def signed_divide_int_def)
  have i: "inSync exampleNetwork" by (simp add: exampleNetwork_def)
  have r: "te_ResidualReapTime deleteEvent = 600" by (simp add: deleteEvent_def)
  have k: "te_TableName deleteEvent = ''t1''" "te_NetworkID deleteEvent = ''net1''"
    "te_Key deleteEvent = ''k1''" by (simp_all add: deleteEvent_def)
  show ?thesis
    using unknown_delete_rebroadcast[OF h1 h2 h3 h4, of True] h1 h3
    by (simp add: c i r k)
qed

text \<open>
  C2. An event for a key whose stored entry has a Lamport time at least the event's
  is rejected: the handler returns false and the store is unchanged but for the
  witnessed table clock, so no entry changes and no watch event is written.
  Delivering any event a second time returns false and changes nothing at all.
\<close>

theorem stale_event_rejected:
  "(getEntry (te_TableName ev) (te_NetworkID ev) (te_Key ev) nDB = Some prev
      \<and> te_LTime ev \<le> entry_ltime prev
      \<longrightarrow> handleTableEvent ev isBulkSync nDB = (False, witnessed ev nDB))
   \<and> handleTableEvent ev isBulkSync' (snd (handleTableEvent ev isBulkSync nDB))
       = (False, snd (handleTableEvent ev isBulkSync nDB))"
  using handleTableEvent_stale[of ev nDB isBulkSync]
    handleTableEvent_again[of ev isBulkSync' isBulkSync nDB]
  by (auto simp: staleEvent_def)

theorem stale_event_rejected_witness:
  "getEntry ''t1'' ''net1'' ''k1'' createdDB = Some (mkEntry createEvent exampleDB)
   \<and> te_LTime createEvent \<le> entry_ltime (mkEntry createEvent exampleDB)
   \<and> handleTableEvent createEvent True createdDB = (False, witnessed createEvent createdDB)
   \<and> broadcaster (witnessed createEvent createdDB) = broadcaster createdDB
   \<and> entries (witnessed createEvent createdDB) = entries createdDB"
proof -
  have top: "topologyChecksPass createEvent exampleDB"
    by (simp add: topologyChecksPass_def networkLeaving_def ownerPresent_def createEvent_def
          exampleDB_def exampleNetwork_def)
  have ns: "\<not> staleEvent createEvent exampleDB"
    by (simp add: staleEvent_def getEntry_def exampleDB_def)
  have n: "thisNodeNetworks exampleDB (te_NetworkID createEvent) = Some exampleNetwork"
    by (simp add: createEvent_def exampleDB_def)
  have k: "te_TableName createEvent = ''t1''" "te_NetworkID createEvent = ''net1''"
    "te_Key createEvent = ''k1''" by (simp_all add: createEvent_def)
  have g: "getEntry (te_TableName createEvent) (te_NetworkID createEvent) (te_Key createEvent)
             createdDB = Some (mkEntry createEvent exampleDB)"
    by (simp add: createdDB_def handleTableEvent_accept[OF top ns n] getEntry_def)
  have l: "te_LTime createEvent \<le> entry_ltime (mkEntry createEvent exampleDB)"
    by (simp add: mkEntry_ltime)
  show ?thesis
    using stale_event_rejected[of createEvent createdDB "mkEntry createEvent exampleDB" True True]
      g l
    by (simp add: k witnessed_def)
qed

text \<open>
  C5. When the local node is not a member of the event's network, or that network
  is leaving, or the event's owner is not in the network's member list, the handler
  returns false and the store is unchanged but for the witnessed table clock: no
  entry changes, no watch event is written, nothing is gossiped again.
\<close>

theorem topology_reject:
  assumes "thisNodeNetworks nDB (te_NetworkID ev) = None
           \<or> networkLeaving (te_NetworkID ev) nDB \<or> \<not> ownerPresent ev nDB"
  shows "handleTableEvent ev isBulkSync nDB = (False, witnessed ev nDB)"
  using assms handleTableEvent_reject[of ev nDB isBulkSync]
  by (auto simp: topologyChecksPass_def)

theorem topology_reject_witness:
  "\<not> ownerPresent strangerEvent exampleDB
   \<and> handleTableEvent strangerEvent True exampleDB = (False, exampleDB\<lparr>tableClock := 5\<rparr>)
   \<and> thisNodeNetworks emptyDB (te_NetworkID createEvent) = None
   \<and> handleTableEvent createEvent True emptyDB = (False, emptyDB\<lparr>tableClock := 5\<rparr>)"
proof -
  have h: "\<not> ownerPresent strangerEvent exampleDB"
    by (simp add: ownerPresent_def strangerEvent_def createEvent_def exampleDB_def)
  have h': "thisNodeNetworks emptyDB (te_NetworkID createEvent) = None"
    by (simp add: emptyDB_def)
  have w: "witnessed strangerEvent exampleDB = exampleDB\<lparr>tableClock := 5\<rparr>"
    by (simp add: witnessed_def strangerEvent_def createEvent_def exampleDB_def)
  have w': "witnessed createEvent emptyDB = emptyDB\<lparr>tableClock := 5\<rparr>"
    by (simp add: witnessed_def createEvent_def emptyDB_def)
  show ?thesis
    using topology_reject[of exampleDB strangerEvent True] topology_reject[of emptyDB createEvent True]
      h h'
    by (simp add: w w')
qed

text \<open>
  C6. For an accepted event (one that passes the topology checks and is not stale):
  a Delete writes a watch event exactly when an entry was stored and was not a
  tombstone, and that watch event carries the stored value as previous value; a
  Create or an Update writes one watch event with the event's value, whose previous
  value is the stored value when an entry was stored and was not a tombstone, and
  is empty otherwise.
\<close>

theorem watch_notification:
  assumes "topologyChecksPass ev nDB" and "\<not> staleEvent ev nDB"
  shows "(te_Type ev = TableEventTypeDelete \<longrightarrow>
            broadcaster (snd (handleTableEvent ev isBulkSync nDB)) =
              broadcaster nDB @
                (case getEntry (te_TableName ev) (te_NetworkID ev) (te_Key ev) nDB of
                   None \<Rightarrow> []
                 | Some p \<Rightarrow>
                     if entry_deleting p then [] else [watchEventFor ev [] (entry_value p)]))
       \<and> (te_Type ev = TableEventTypeCreate \<or> te_Type ev = TableEventTypeUpdate \<longrightarrow>
            broadcaster (snd (handleTableEvent ev isBulkSync nDB)) =
              broadcaster nDB @
                [watchEventFor ev (te_Value ev)
                   (case getEntry (te_TableName ev) (te_NetworkID ev) (te_Key ev) nDB of
                      None \<Rightarrow> []
                    | Some p \<Rightarrow> if entry_deleting p then [] else entry_value p)])"
proof -
  from assms(1) obtain n where n: "thisNodeNetworks nDB (te_NetworkID ev) = Some n"
    by (auto simp: topologyChecksPass_def)
  show ?thesis
    by (auto simp: handleTableEvent_accept[OF assms n] watchEvents_def watchEventFor_def Let_def
        split: option.splits)
qed

theorem watch_notification_witness:
  "topologyChecksPass createEvent exampleDB \<and> \<not> staleEvent createEvent exampleDB
   \<and> broadcaster createdDB = [watchEventFor createEvent [1, 2, 3] []]
   \<and> topologyChecksPass deleteEvent createdDB \<and> \<not> staleEvent deleteEvent createdDB
   \<and> broadcaster (snd (handleTableEvent deleteEvent False createdDB))
       = [watchEventFor createEvent [1, 2, 3] [], watchEventFor deleteEvent [] [1, 2, 3]]"
proof -
  have top: "topologyChecksPass createEvent exampleDB"
    by (simp add: topologyChecksPass_def networkLeaving_def ownerPresent_def createEvent_def
          exampleDB_def exampleNetwork_def)
  have ns: "\<not> staleEvent createEvent exampleDB"
    by (simp add: staleEvent_def getEntry_def exampleDB_def)
  have n: "thisNodeNetworks exampleDB (te_NetworkID createEvent) = Some exampleNetwork"
    by (simp add: createEvent_def exampleDB_def)
  have g0: "getEntry (te_TableName createEvent) (te_NetworkID createEvent) (te_Key createEvent)
              exampleDB = None"
    by (simp add: getEntry_def exampleDB_def)
  have b0: "broadcaster exampleDB = []" by (simp add: exampleDB_def)
  have c: "broadcaster createdDB = [watchEventFor createEvent [1, 2, 3] []]"
    using watch_notification[OF top ns, of False]
    by (simp add: createdDB_def g0 b0) (simp add: createEvent_def)
  have top': "topologyChecksPass deleteEvent createdDB"
    by (simp add: createdDB_def handleTableEvent_accept[OF top ns n] topologyChecksPass_def
          networkLeaving_def ownerPresent_def)
       (simp add: deleteEvent_def exampleDB_def exampleNetwork_def)
  have g: "getEntry (te_TableName deleteEvent) (te_NetworkID deleteEvent) (te_Key deleteEvent)
             createdDB = Some (mkEntry createEvent exampleDB)"
    by (simp add: createdDB_def handleTableEvent_accept[OF top ns n] getEntry_def)
       (simp add: deleteEvent_def createEvent_def)
  have ns': "\<not> staleEvent deleteEvent createdDB"
    by (simp add: staleEvent_def g mkEntry_ltime) (simp add: deleteEvent_def createEvent_def)
  have e: "\<not> entry_deleting (mkEntry createEvent exampleDB)"
    "entry_value (mkEntry createEvent exampleDB) = [1, 2, 3]"
    by (simp_all add: mkEntry_def createEvent_def)
  have d: "te_Type deleteEvent = TableEventTypeDelete" by (simp add: deleteEvent_def)
  show ?thesis
    using watch_notification[OF top' ns', of False] top ns top' ns' c
    by (simp add: d g e)
qed

text \<open>
  C8. For a message received by bulk sync, when the queue of the event's network,
  as found after the event was handled, holds more messages than the configured
  maximum, the handler queues nothing.
\<close>

theorem bulk_sync_backpressure:
  assumes "unmarshal buf = Some ev"
    and "thisNodeNetworks (others (snd (handleTableEvent ev True nDB))) (te_NetworkID ev) = Some n"
    and "maxQueueLen < NumQueued (tableRebroadcasts n)"
  shows "handleTableMessage others unmarshal encodeRawMessage maxQueueLen buf True nDB
         = notEnqueued others encodeRawMessage ev buf True nDB"
  using assms
  by (auto simp: handleTableMessage_def notEnqueued_def Let_def split: option.splits)

theorem bulk_sync_backpressure_witness:
  "fst (handleTableEvent createEvent True busyDB)
   \<and> 1 < NumQueued [queuedMessage ''a'', queuedMessage ''b'']
   \<and> handleTableMessage nothingElseRuns (decodeAs createEvent) encodeTagged 1 [] True busyDB
       = snd (handleTableEvent createEvent True busyDB)
   \<and> thisNodeNetworks (snd (handleTableEvent createEvent True busyDB)) ''net1''
       = thisNodeNetworks busyDB ''net1''"
proof -
  let ?n = "exampleNetwork\<lparr>tableRebroadcasts := [queuedMessage ''a'', queuedMessage ''b'']\<rparr>"
  have top: "topologyChecksPass createEvent busyDB"
    by (simp add: topologyChecksPass_def networkLeaving_def ownerPresent_def createEvent_def
          busyDB_def exampleDB_def exampleNetwork_def)
  have ns: "\<not> staleEvent createEvent busyDB"
    by (simp add: staleEvent_def getEntry_def busyDB_def exampleDB_def)
  have n: "thisNodeNetworks busyDB (te_NetworkID createEvent) = Some ?n"
    by (simp add: createEvent_def busyDB_def)
  have t: "te_Type createEvent \<noteq> TableEventTypeDelete" by (simp add: createEvent_def)
  have r: "fst (handleTableEvent createEvent True busyDB)"
    by (simp add: handleTableEvent_accept[OF top ns n] t exampleNetwork_def)
  have s: "thisNodeNetworks (snd (handleTableEvent createEvent True busyDB))
             = thisNodeNetworks busyDB"
    by (simp add: handleTableEvent_accept[OF top ns n] t)
  have h1: "decodeAs createEvent [] = Some createEvent" by (simp add: decodeAs_def)
  have h2: "thisNodeNetworks (nothingElseRuns (snd (handleTableEvent createEvent True busyDB)))
              (te_NetworkID createEvent) = Some ?n"
    by (simp add: nothingElseRuns_def s n)
  have h3: "1 < NumQueued (tableRebroadcasts ?n)" by (simp add: NumQueued_def)
  have own: "te_NodeName createEvent \<noteq> cfg_NodeID (config busyDB)"
    by (simp add: createEvent_def busyDB_def exampleDB_def exampleConfig_def)
  show ?thesis
    using bulk_sync_backpressure[where unmarshal = "decodeAs createEvent" and buf = "[]"
            and ev = createEvent and others = nothingElseRuns and nDB = busyDB and n = ?n
            and maxQueueLen = 1 and encodeRawMessage = encodeTagged, OF h1 h2 h3] r h3 s
    by (simp add: notEnqueued_def own nothingElseRuns_def encodeTagged_def)
qed

text \<open>
  C9. A table event message whose owner is the local node is ignored before
  \<^verbatim>\<open>handleTableEvent\<close> is called: the store, with its table clock, its entries, its
  watch events and its queues, is unchanged.
\<close>

theorem own_message_ignored:
  assumes "unmarshal buf = Some ev" and "te_NodeName ev = cfg_NodeID (config nDB)"
  shows "handleTableMessage others unmarshal encodeRawMessage maxQueueLen buf isBulkSync nDB = nDB"
  using assms by (simp add: handleTableMessage_def)

theorem own_message_ignored_witness:
  "decodeAs ownEvent [] = Some ownEvent
   \<and> te_NodeName ownEvent = cfg_NodeID (config exampleDB)
   \<and> handleTableMessage leaveNet1 (decodeAs ownEvent) encodeTagged 500 [] True exampleDB
       = exampleDB"
proof -
  have h1: "decodeAs ownEvent [] = Some ownEvent" by (simp add: decodeAs_def)
  have h2: "te_NodeName ownEvent = cfg_NodeID (config exampleDB)"
    by (simp add: ownEvent_def exampleDB_def exampleConfig_def)
  show ?thesis
    using own_message_ignored[where unmarshal = "decodeAs ownEvent" and buf = "[]"
            and ev = ownEvent and nDB = exampleDB and others = leaveNet1
            and encodeRawMessage = encodeTagged and maxQueueLen = 500 and isBulkSync = True,
            OF h1 h2] h1 h2
    by simp
qed

text \<open>
  C10. Whatever ran between the handling of the event and the second look at
  \<^verbatim>\<open>thisNodeNetworks\<close>: when the network is then absent or leaving, the handler
  queues nothing, also when \<^verbatim>\<open>handleTableEvent\<close> returned true.
\<close>

theorem no_rebroadcast_when_left:
  assumes "unmarshal buf = Some ev"
    and "thisNodeNetworks (others (snd (handleTableEvent ev isBulkSync nDB))) (te_NetworkID ev)
           = None
         \<or> networkLeaving (te_NetworkID ev) (others (snd (handleTableEvent ev isBulkSync nDB)))"
  shows "handleTableMessage others unmarshal encodeRawMessage maxQueueLen buf isBulkSync nDB
         = notEnqueued others encodeRawMessage ev buf isBulkSync nDB"
  using assms
  by (auto simp: handleTableMessage_def notEnqueued_def networkLeaving_def Let_def
      split: option.splits)

theorem no_rebroadcast_when_left_witness:
  "fst (handleTableEvent createEvent False exampleDB)
   \<and> networkLeaving ''net1'' (leaveNet1 createdDB)
   \<and> handleTableMessage leaveNet1 (decodeAs createEvent) encodeTagged 500 [] False exampleDB
       = leaveNet1 createdDB
   \<and> thisNodeNetworks (leaveNet1 createdDB) ''net1''
       = Some (exampleNetwork\<lparr>net_leaving := True\<rparr>)"
proof -
  have top: "topologyChecksPass createEvent exampleDB"
    by (simp add: topologyChecksPass_def networkLeaving_def ownerPresent_def createEvent_def
          exampleDB_def exampleNetwork_def)
  have ns: "\<not> staleEvent createEvent exampleDB"
    by (simp add: staleEvent_def getEntry_def exampleDB_def)
  have n: "thisNodeNetworks exampleDB (te_NetworkID createEvent) = Some exampleNetwork"
    by (simp add: createEvent_def exampleDB_def)
  have t: "te_Type createEvent \<noteq> TableEventTypeDelete" by (simp add: createEvent_def)
  have r: "fst (handleTableEvent createEvent False exampleDB)"
    by (simp add: handleTableEvent_accept[OF top ns n] t exampleNetwork_def)
  have s: "thisNodeNetworks createdDB = thisNodeNetworks exampleDB"
    by (simp add: createdDB_def handleTableEvent_accept[OF top ns n] t)
  have q: "thisNodeNetworks (leaveNet1 createdDB) ''net1''
             = Some (exampleNetwork\<lparr>net_leaving := True\<rparr>)"
    by (simp add: leaveNet1_def s) (simp add: exampleDB_def)
  have l: "networkLeaving ''net1'' (leaveNet1 createdDB)"
    by (simp add: networkLeaving_def q)
  have k: "te_NetworkID createEvent = ''net1''" by (simp add: createEvent_def)
  have h1: "decodeAs createEvent [] = Some createEvent" by (simp add: decodeAs_def)
  have h2: "thisNodeNetworks (leaveNet1 (snd (handleTableEvent createEvent False exampleDB)))
              (te_NetworkID createEvent) = None
            \<or> networkLeaving (te_NetworkID createEvent)
                (leaveNet1 (snd (handleTableEvent createEvent False exampleDB)))"
    using l by (simp add: k createdDB_def)
  have own: "te_NodeName createEvent \<noteq> cfg_NodeID (config exampleDB)"
    by (simp add: createEvent_def exampleDB_def exampleConfig_def)
  show ?thesis
    using no_rebroadcast_when_left[where unmarshal = "decodeAs createEvent" and buf = "[]"
            and ev = createEvent and others = leaveNet1 and nDB = exampleDB
            and isBulkSync = False and encodeRawMessage = encodeTagged and maxQueueLen = 500,
            OF h1 h2] r l q
    by (simp add: notEnqueued_def own encodeTagged_def createdDB_def)
qed

text \<open>
  C3, as the code has it. Every call of \<^verbatim>\<open>handleTableEvent\<close> raises the table clock
  to the maximum of its value and the event's Lamport time, and never lowers it,
  whatever becomes of the event. A table event message reaches that call when it
  decodes and its owner is not the local node; then, with no other handler running
  in between, the table clock after \<^verbatim>\<open>handleTableMessage\<close> is that maximum. A message
  of the local node is ignored before the clock is witnessed.
\<close>

theorem table_clock_witnessed:
  "tableClock (snd (handleTableEvent ev isBulkSync nDB)) = max (tableClock nDB) (te_LTime ev)
   \<and> tableClock nDB \<le> tableClock (snd (handleTableEvent ev isBulkSync nDB))
   \<and> (unmarshal buf = Some ev \<and> te_NodeName ev \<noteq> cfg_NodeID (config nDB) \<longrightarrow>
        tableClock (handleTableMessage nothingElseRuns unmarshal encodeRawMessage maxQueueLen
                      buf isBulkSync nDB)
          = max (tableClock nDB) (te_LTime ev))"
  by (auto simp: handleTableEvent_clock handleTableMessage_def nothingElseRuns_def Let_def
      split: option.splits)

theorem table_clock_witnessed_witness:
  "decodeAs strangerEvent [] = Some strangerEvent
   \<and> te_NodeName strangerEvent \<noteq> cfg_NodeID (config exampleDB)
   \<and> \<not> topologyChecksPass strangerEvent exampleDB
   \<and> tableClock exampleDB = 1
   \<and> tableClock (handleTableMessage nothingElseRuns (decodeAs strangerEvent) encodeTagged 500
                    [] False exampleDB) = 5"
proof -
  have h1: "decodeAs strangerEvent [] = Some strangerEvent" by (simp add: decodeAs_def)
  have h2: "te_NodeName strangerEvent \<noteq> cfg_NodeID (config exampleDB)"
    by (simp add: strangerEvent_def createEvent_def exampleDB_def exampleConfig_def)
  have h3: "\<not> topologyChecksPass strangerEvent exampleDB"
    by (simp add: topologyChecksPass_def ownerPresent_def strangerEvent_def createEvent_def
          exampleDB_def)
  have c: "tableClock exampleDB = 1" by (simp add: exampleDB_def)
  have t: "te_LTime strangerEvent = 5" by (simp add: strangerEvent_def createEvent_def)
  show ?thesis
    using table_clock_witnessed[where unmarshal = "decodeAs strangerEvent" and buf = "[]"
            and ev = strangerEvent and nDB = exampleDB and isBulkSync = False
            and encodeRawMessage = encodeTagged and maxQueueLen = 500] h1 h2 h3
    by (simp add: c t)
qed

text \<open>
  C3, as stated, fails: the message below is owned by the local node and carries
  Lamport time 7; the table clock is 1 before and after it is handled.
\<close>

theorem table_clock_own_message_counterexample:
  "decodeAs ownEvent [] = Some ownEvent
   \<and> te_LTime ownEvent = 7
   \<and> tableClock exampleDB = 1
   \<and> tableClock (handleTableMessage nothingElseRuns (decodeAs ownEvent) encodeTagged 500
                    [] False exampleDB) = 1"
  by (simp add: handleTableMessage_def decodeAs_def ownEvent_def createEvent_def exampleDB_def
        exampleConfig_def)

text \<open>
  C7. A node event witnesses the network clock. It is dropped, the handler returning
  false and the node keeping its state, when the node is not among the nodes known
  to the membership layer or when the event is not newer than the stored node. For a
  node known to the membership layer and a newer event, the node is active after a
  Join and left after a Leave, and the handler returns true exactly when the state
  of the node changed.
\<close>

theorem node_event_handled:
  "networkClock (snd (handleNodeEvent ev nDB)) = max (networkClock nDB) (nde_LTime ev)
   \<and> (nodes nDB (nde_NodeName ev) = None \<or> staleNodeEvent ev nDB \<longrightarrow>
        \<not> fst (handleNodeEvent ev nDB)
        \<and> nodeStateOf (nde_NodeName ev) (snd (handleNodeEvent ev nDB))
            = nodeStateOf (nde_NodeName ev) nDB)
   \<and> (nodes nDB (nde_NodeName ev) = Some n \<and> node_Name n = nde_NodeName ev
        \<and> node_ltime n < nde_LTime ev \<longrightarrow>
        (nde_Type ev = NodeEventTypeJoin \<longrightarrow>
           nodeStateOf (nde_NodeName ev) (snd (handleNodeEvent ev nDB)) = nodeActiveState)
        \<and> (nde_Type ev = NodeEventTypeLeave \<longrightarrow>
           nodeStateOf (nde_NodeName ev) (snd (handleNodeEvent ev nDB)) = nodeLeftState)
        \<and> (fst (handleNodeEvent ev nDB) \<longleftrightarrow>
             nodeStateOf (nde_NodeName ev) (snd (handleNodeEvent ev nDB))
               \<noteq> nodeStateOf (nde_NodeName ev) nDB))"
proof -
  have a: "networkClock (snd (handleNodeEvent ev nDB)) = max (networkClock nDB) (nde_LTime ev)"
    by (rule handleNodeEvent_clock)
  have c: "(nde_Type ev = NodeEventTypeJoin \<longrightarrow>
             nodeStateOf (nde_NodeName ev) (snd (handleNodeEvent ev nDB)) = nodeActiveState)
         \<and> (nde_Type ev = NodeEventTypeLeave \<longrightarrow>
             nodeStateOf (nde_NodeName ev) (snd (handleNodeEvent ev nDB)) = nodeLeftState)
         \<and> (fst (handleNodeEvent ev nDB) \<longleftrightarrow>
               nodeStateOf (nde_NodeName ev) (snd (handleNodeEvent ev nDB))
                 \<noteq> nodeStateOf (nde_NodeName ev) nDB)"
    if h: "nodes nDB (nde_NodeName ev) = Some n" "node_Name n = nde_NodeName ev"
      "node_ltime n < nde_LTime ev"
  proof -
    have s: "nodeStateOf (nde_NodeName ev) nDB = nodeActiveState"
      using h(1) by (rule nodeStateOf_active)
    show ?thesis
      by (cases "nde_Type ev")
         (simp_all add: handleNodeEvent_alive[OF h(1) h(3) h(2)] s nodeStateOf_active
            nodeStateOf_left)
  qed
  show ?thesis
    using a handleNodeEvent_dropped[of nDB ev] c by blast
qed

theorem node_event_handled_witness:
  "nodes exampleDB ''remote''
     = Some \<lparr>node_Name = ''remote'', node_ltime = 1, node_reapTime = 0\<rparr>
   \<and> fst (handleNodeEvent leaveEvent exampleDB)
   \<and> nodeStateOf ''remote'' exampleDB = nodeActiveState
   \<and> nodeStateOf ''remote'' (snd (handleNodeEvent leaveEvent exampleDB)) = nodeLeftState
   \<and> networkClock (snd (handleNodeEvent leaveEvent exampleDB)) = 4
   \<and> staleNodeEvent oldJoinEvent exampleDB
   \<and> \<not> fst (handleNodeEvent oldJoinEvent exampleDB)
   \<and> nodeStateOf ''remote'' (snd (handleNodeEvent oldJoinEvent exampleDB)) = nodeActiveState"
proof -
  let ?n = "\<lparr>node_Name = ''remote'', node_ltime = 1, node_reapTime = 0\<rparr>"
  have n: "nodes exampleDB ''remote'' = Some ?n" by (simp add: exampleDB_def)
  have s: "nodeStateOf ''remote'' exampleDB = nodeActiveState"
    by (simp add: nodeStateOf_def findNode_def n)
  have st: "staleNodeEvent oldJoinEvent exampleDB"
    by (simp add: staleNodeEvent_def findNode_def oldJoinEvent_def n)
  have l: "nde_NodeName leaveEvent = ''remote''" "nde_Type leaveEvent = NodeEventTypeLeave"
    "nde_LTime leaveEvent = 4" by (simp_all add: leaveEvent_def)
  have j: "nde_NodeName oldJoinEvent = ''remote''" by (simp add: oldJoinEvent_def)
  have c: "networkClock exampleDB = 1" by (simp add: exampleDB_def)
  show ?thesis
    using node_event_handled[of leaveEvent exampleDB ?n]
      node_event_handled[of oldJoinEvent exampleDB ?n] n s st
    by (simp add: l j c)
qed

text \<open>
  C4, as the code has it. \<^verbatim>\<open>MergeRemoteState\<close> never creates a node: on every
  store, a node name is known after the merge exactly when it was known before. On
  a store without nodes and without network records it therefore records nothing
  of the snapshot: the store still has no node afterwards, so the sender is not
  recorded, and no (node, network) pair has a stored record. On a store without
  network records, a snapshot that decodes, that names each (node, network) pair
  once, and that names only nodes that are alive and are not the local node, is
  stored record by record: a record that is not leaving becomes the stored record
  of its pair, with the Lamport time of the snapshot and the leaving flag unset; a
  leaving record is not stored; no other pair has a record.
\<close>

theorem merge_remote_state:
  "((nodeStateOf z (MergeRemoteState unmarshalGossip unmarshalPushPull buf isJoin nDB)
       = nodeNotFound)
      = (nodeStateOf z nDB = nodeNotFound))
   \<and> (noNodes nDB \<and> networks nDB = Map.empty \<longrightarrow>
      noNodes (MergeRemoteState unmarshalGossip unmarshalPushPull buf isJoin nDB)
      \<and> noMembership (MergeRemoteState unmarshalGossip unmarshalPushPull buf isJoin nDB))
   \<and> (buf \<noteq> [] \<and> unmarshalGossip buf = Some gMsg
        \<and> unmarshalPushPull (gm_Data gMsg) = Some pp
        \<and> mergeable (pp_Networks pp) nDB \<and> networks nDB = Map.empty \<longrightarrow>
      membershipRecord x y (MergeRemoteState unmarshalGossip unmarshalPushPull buf isJoin nDB)
        = snapshotRecord (pp_Networks pp) x y)"
proof -
  have k: "(nodeStateOf z (MergeRemoteState unmarshalGossip unmarshalPushPull buf isJoin nDB)
              = nodeNotFound)
           = (nodeStateOf z nDB = nodeNotFound)"
    by (simp add: nodeStateOf_notFound MergeRemoteState_known)
  have a: "noNodes (MergeRemoteState unmarshalGossip unmarshalPushPull buf isJoin nDB)
           \<and> noMembership (MergeRemoteState unmarshalGossip unmarshalPushPull buf isJoin nDB)"
    if h: "noNodes nDB" "networks nDB = Map.empty"
  proof -
    have m: "noMembership nDB"
      using h(2) by (simp add: noMembership_def membershipRecord_def)
    show ?thesis
      using h(1) m mergePushPull_noNodes[OF h(1) m]
      by (auto simp: MergeRemoteState_def split: option.splits)
  qed
  have b: "membershipRecord x y (MergeRemoteState unmarshalGossip unmarshalPushPull buf isJoin nDB)
             = snapshotRecord (pp_Networks pp) x y"
    if h: "buf \<noteq> []" "unmarshalGossip buf = Some gMsg"
      "unmarshalPushPull (gm_Data gMsg) = Some pp"
      "mergeable (pp_Networks pp) nDB" "networks nDB = Map.empty"
    using h(1,2,3) by (simp add: MergeRemoteState_def mergePushPull_records[OF h(4,5)])
  from k a b show ?thesis by blast
qed

theorem merge_remote_state_witness:
  "noNodes emptyDB \<and> networks emptyDB = Map.empty
   \<and> nodeStateOf ''remote''
        (MergeRemoteState decodeGossip (decodeSnapshotAs remoteSnapshot) [4] True emptyDB)
       = nodeNotFound
   \<and> membershipRecord ''remote'' ''net1''
        (MergeRemoteState decodeGossip (decodeSnapshotAs remoteSnapshot) [4] True emptyDB)
       = None
   \<and> mergeable (pp_Networks remoteSnapshot) exampleDB \<and> networks exampleDB = Map.empty
   \<and> nodeStateOf ''ghost'' exampleDB = nodeNotFound
   \<and> nodeStateOf ''ghost''
        (MergeRemoteState decodeGossip (decodeSnapshotAs remoteSnapshot) [4] True exampleDB)
       = nodeNotFound
   \<and> membershipRecord ''remote'' ''net1''
        (MergeRemoteState decodeGossip (decodeSnapshotAs remoteSnapshot) [4] True exampleDB)
       = Some \<lparr>net_ltime = 2, net_leaving = False, net_reapTime = 0\<rparr>"
proof -
  have h1: "noNodes emptyDB" by (simp add: noNodes_def emptyDB_def)
  have h2: "networks emptyDB = Map.empty" by (simp add: emptyDB_def)
  have g: "[4] \<noteq> ([] :: bytes)"
    "decodeGossip [4] = Some \<lparr>gm_Type = MessageTypePushPull, gm_Data = [4]\<rparr>"
    "decodeSnapshotAs remoteSnapshot (gm_Data \<lparr>gm_Type = MessageTypePushPull, gm_Data = [4]\<rparr>)
       = Some remoteSnapshot"
    by (simp_all add: decodeGossip_def decodeSnapshotAs_def)
  have h3: "mergeable (pp_Networks remoteSnapshot) exampleDB"
    by (simp add: mergeable_def aliveRemote_def remoteSnapshot_def exampleDB_def exampleConfig_def)
  have h4: "networks exampleDB = Map.empty" by (simp add: exampleDB_def)
  have h5: "nodeStateOf ''ghost'' exampleDB = nodeNotFound"
    by (simp add: nodeStateOf_def findNode_def exampleDB_def)
  have s: "snapshotRecord (pp_Networks remoteSnapshot) ''remote'' ''net1''
             = Some \<lparr>net_ltime = 2, net_leaving = False, net_reapTime = 0\<rparr>"
    by (simp add: snapshotRecord_def remoteSnapshot_def recordKey_def)
  have e: "nodeStateOf ''remote''
             (MergeRemoteState decodeGossip (decodeSnapshotAs remoteSnapshot) [4] True emptyDB)
             = nodeNotFound
           \<and> membershipRecord ''remote'' ''net1''
             (MergeRemoteState decodeGossip (decodeSnapshotAs remoteSnapshot) [4] True emptyDB)
             = None"
    using merge_remote_state[where nDB = emptyDB and unmarshalGossip = decodeGossip
            and unmarshalPushPull = "decodeSnapshotAs remoteSnapshot" and buf = "[4]"
            and isJoin = True] h1 h2
    by (simp add: noNodes_def noMembership_def nodeStateOf_def findNode_def)
  have x: "nodeStateOf ''ghost''
             (MergeRemoteState decodeGossip (decodeSnapshotAs remoteSnapshot) [4] True exampleDB)
             = nodeNotFound
           \<and> membershipRecord ''remote'' ''net1''
             (MergeRemoteState decodeGossip (decodeSnapshotAs remoteSnapshot) [4] True exampleDB)
             = Some \<lparr>net_ltime = 2, net_leaving = False, net_reapTime = 0\<rparr>"
    using merge_remote_state[where nDB = exampleDB and unmarshalGossip = decodeGossip
            and unmarshalPushPull = "decodeSnapshotAs remoteSnapshot" and buf = "[4]"
            and isJoin = True and pp = remoteSnapshot and x = "''remote''" and y = "''net1''"
            and z = "''ghost''"
            and gMsg = "\<lparr>gm_Type = MessageTypePushPull, gm_Data = [4]\<rparr>"]
      h3 h4 h5 g
    by (simp add: s)
  from h1 h2 h3 h4 h5 e x show ?thesis by simp
qed

text \<open>
  C4, as stated, fails: the snapshot below is sent by \<open>remote\<close> and holds one record,
  (\<open>remote\<close>, \<open>net1\<close>) at Lamport time 2, not leaving. Merged into the empty store, it
  leaves \<open>remote\<close> unknown and the pair without a record.
\<close>

theorem merge_remote_state_counterexample:
  "pp_NodeName remoteSnapshot = ''remote''
   \<and> nodes (MergeRemoteState decodeGossip (decodeSnapshotAs remoteSnapshot) [4] True emptyDB)
        ''remote'' = None
   \<and> nodeStateOf ''remote''
        (MergeRemoteState decodeGossip (decodeSnapshotAs remoteSnapshot) [4] True emptyDB)
       = nodeNotFound
   \<and> membershipRecord ''remote'' ''net1''
        (MergeRemoteState decodeGossip (decodeSnapshotAs remoteSnapshot) [4] True emptyDB)
       = None"
  by (simp add: MergeRemoteState_def mergePushPull_def decodeGossip_def decodeSnapshotAs_def
        remoteSnapshot_def emptyDB_def exampleConfig_def handleNodeEvent_def
        handleNetworkEvent_def networkEventOf_def findNode_def nodeStateOf_def
        membershipRecord_def Witness_def Let_def)

end
